theory Spec2Isabelle
  imports Main "HOL-Library.Sublist"
begin

text \<open>
  The resource adapters of the AWS provider: the Create, Read, Update and Delete
  operations of the Access Analyzer analyzer, the Redshift snapshot schedule and the EC2
  traffic mirror filter, and the read of the WAF regional rule data source. Each
  operation is a function of the resource data, the client and the log of the calls
  issued so far, and returns its error, the resource data and the log. The first part
  holds the definitions, the second the theorems about them.
\<close>

section \<open>Errors\<close>

text \<open>
  A Go \<open>error\<close> value is one of: an AWS SDK error with a code and a message
  (\<open>awserr.Error\<close>), the retry primitive's timeout error (without a last error), an
  error built by \<open>fmt.Errorf\<close> without \<open>%w\<close> (only its text survives), or one built
  with \<open>%w\<close> (the text and the wrapped error). A nil error is \<open>None\<close>.
\<close>

datatype error =
    AwsErr string string
  | TimeoutError
  | ErrorString string
  | WrapError string error

text \<open>
  \<open>err.Error()\<close>: the text that the verbs \<open>%s\<close>, \<open>%v\<close> and \<open>%w\<close> print. For an AWS
  error it is the code and the message; the status code and the request ID that the SDK
  appends for a failed request are left out.
\<close>

fun Error :: "error \<Rightarrow> string" where
  "Error (AwsErr code message) = code @ '': '' @ message"
| "Error TimeoutError = ''timeout while waiting for state to become success''"
| "Error (ErrorString s) = s"
| "Error (WrapError s e) = s"

text \<open>\<open>errors.As(err, &awsErr)\<close>: the first AWS error on the chain of wrapped errors.\<close>

fun asAwsErr :: "error \<Rightarrow> (string \<times> string) option" where
  "asAwsErr (AwsErr code message) = Some (code, message)"
| "asAwsErr TimeoutError = None"
| "asAwsErr (ErrorString s) = None"
| "asAwsErr (WrapError s e) = asAwsErr e"

text \<open>\<open>strings.Contains(s, substr)\<close>.\<close>

definition Contains :: "string \<Rightarrow> string \<Rightarrow> bool" where
  "Contains s substr = sublist substr s"

text \<open>\<open>tfawserr.ErrMessageContains\<close> and \<open>tfawserr.ErrCodeEquals\<close>; both are false on nil.\<close>

definition ErrMessageContains :: "error option \<Rightarrow> string \<Rightarrow> string \<Rightarrow> bool" where
  "ErrMessageContains err code message =
     (case err of
        None \<Rightarrow> False
      | Some e \<Rightarrow>
          (case asAwsErr e of
             None \<Rightarrow> False
           | Some (c, m) \<Rightarrow> c = code \<and> Contains m message))"

definition ErrCodeEquals :: "error option \<Rightarrow> string \<Rightarrow> bool" where
  "ErrCodeEquals err code =
     (case err of
        None \<Rightarrow> False
      | Some e \<Rightarrow> (case asAwsErr e of None \<Rightarrow> False | Some (c, m) \<Rightarrow> c = code))"

text \<open>\<open>aws.StringValue\<close>: a nil string pointer reads as the empty string.\<close>

definition StringValue :: "string option \<Rightarrow> string" where
  "StringValue p = (case p of None \<Rightarrow> [] | Some s \<Rightarrow> s)"

text \<open>The error codes named by the source (constants of the SDK's service packages).\<close>

definition ErrCodeValidationException :: string where
  "ErrCodeValidationException = ''ValidationException''"

definition ErrCodeResourceNotFoundException :: string where
  "ErrCodeResourceNotFoundException = ''ResourceNotFoundException''"

definition ErrCodeSnapshotScheduleNotFoundFault :: string where
  "ErrCodeSnapshotScheduleNotFoundFault = ''SnapshotScheduleNotFound''"

definition ErrCodeClusterNotFoundFault :: string where
  "ErrCodeClusterNotFoundFault = ''ClusterNotFound''"

section \<open>Durations\<close>

text \<open>\<open>time.Duration\<close> counts nanoseconds.\<close>

type_synonym Duration = int

definition Second :: Duration where
  "Second = 1000000000"

definition Minute :: Duration where
  "Minute = 60 * Second"

definition accessAnalyzerOrganizationCreationTimeout :: Duration where
  "accessAnalyzerOrganizationCreationTimeout = 10 * Minute"

section \<open>Tags\<close>

type_synonym KeyValueTags = "string \<rightharpoonup> string"

record IgnoreConfig =
  Keys :: "string set"
  KeyPrefixes :: "string list"

text \<open>
  Modelled from the spec: the package \<open>keyvaluetags\<close> (the tag-merge and tag-diff
  primitive) is not among the source files. \<open>MergeTags\<close> is the spec's merge of the
  process-wide default tags with the resource's own tags: the union of both, the
  resource-level value taking precedence on a key that both have.
\<close>

definition MergeTags :: "KeyValueTags \<Rightarrow> KeyValueTags \<Rightarrow> KeyValueTags" where
  "MergeTags defaultTags tags = defaultTags ++ tags"

text \<open>
  Modelled from the spec: \<open>IgnoreAws\<close> of the missing package \<open>keyvaluetags\<close>. The spec
  does not describe it; it drops the tags whose key carries the prefix \<open>aws:\<close>, which
  AWS reserves for its own tags, and keeps every other tag as it is.
\<close>

definition AwsTagKeyPrefix :: string where
  "AwsTagKeyPrefix = ''aws:''"

definition IgnoreAws :: "KeyValueTags \<Rightarrow> KeyValueTags" where
  "IgnoreAws tags = (\<lambda>k. if prefix AwsTagKeyPrefix k then None else tags k)"

text \<open>
  Modelled from the spec: \<open>IgnoreConfig\<close> and \<open>RemoveDefaultConfig\<close> of the missing
  package \<open>keyvaluetags\<close>, used by the Read operations only: the first drops the keys
  and key prefixes that the provider is configured to ignore, the second drops the tags
  that the default tags already carry with the same value.
\<close>

definition IgnoreConfig :: "IgnoreConfig \<Rightarrow> KeyValueTags \<Rightarrow> KeyValueTags" where
  "IgnoreConfig config tags =
     (\<lambda>k. if k \<in> Keys config \<or> (\<exists>p \<in> set (KeyPrefixes config). prefix p k)
          then None else tags k)"

definition RemoveDefaultConfig :: "KeyValueTags \<Rightarrow> KeyValueTags \<Rightarrow> KeyValueTags" where
  "RemoveDefaultConfig defaultTags tags =
     (\<lambda>k. if defaultTags k \<noteq> None \<and> defaultTags k = tags k then None else tags k)"

section \<open>The framework's resource data\<close>

text \<open>
  \<open>schema.ResourceData\<close>: the resource's ID, whether the resource has just been created,
  and the framework's answer to \<open>d.Set(key, value)\<close> (\<open>None\<close>: the value was accepted).
  Every resource extends it with the fields of its own schema, typed as the schema types
  them. A field that \<open>HasChange\<close> and \<open>GetChange\<close> are asked about has a second
  component, suffixed \<open>_old\<close>, for its value in the prior state.
\<close>

record ResourceData =
  Id :: string
  IsNewResource :: bool
  SetError :: "string \<Rightarrow> error option"

definition SetId :: "string \<Rightarrow> 'a ResourceData_scheme \<Rightarrow> 'a ResourceData_scheme" where
  "SetId v d = d\<lparr>Id := v\<rparr>"

record TaggedData = ResourceData +
  arn :: string
  tags :: KeyValueTags
  tags_all :: KeyValueTags
  tags_all_old :: KeyValueTags

section \<open>WAF regional rule: SDK types\<close>

record RuleSummary =
  Name :: "string option"
  RuleId :: "string option"

record ListRulesInput =
  NextMarker :: "string option"

record ListRulesOutput =
  NextMarker :: "string option"
  Rules :: "RuleSummary list"

section \<open>Access Analyzer: SDK types\<close>

text \<open>
  The SDK's tag lists and tag maps are written as \<open>KeyValueTags\<close>: the conversions
  between the two (\<open>AccessanalyzerTags\<close>, \<open>RedshiftTags\<close>, \<open>Ec2Tags\<close> and their
  inverses) change the representation only. Where the source dereferences an output
  without a nil check, the output is not optional: the SDK returns one whenever the error
  is nil.
\<close>

record CreateAnalyzerInput =
  AnalyzerName :: string
  ClientToken :: string
  Tags :: KeyValueTags
  Type :: string

record GetAnalyzerInput =
  AnalyzerName :: string

record AnalyzerSummary =
  Arn :: "string option"
  Name :: "string option"
  Tags :: KeyValueTags
  Type :: "string option"

record GetAnalyzerOutput =
  Analyzer :: "AnalyzerSummary option"

record DeleteAnalyzerInput =
  AnalyzerName :: string
  ClientToken :: string

section \<open>Redshift snapshot schedule: SDK types\<close>

record CreateSnapshotScheduleInput =
  ScheduleIdentifier :: string
  ScheduleDefinitions :: "string set"
  Tags :: KeyValueTags
  ScheduleDescription :: "string option"

record CreateSnapshotScheduleOutput =
  ScheduleIdentifier :: "string option"

record DescribeSnapshotSchedulesInput =
  ScheduleIdentifier :: string

record ClusterAssociatedToSchedule =
  ClusterIdentifier :: "string option"

record SnapshotSchedule =
  ScheduleIdentifier :: "string option"
  ScheduleDescription :: "string option"
  ScheduleDefinitions :: "string list"
  Tags :: KeyValueTags
  AssociatedClusters :: "ClusterAssociatedToSchedule list"

record DescribeSnapshotSchedulesOutput =
  SnapshotSchedules :: "SnapshotSchedule list"

record ModifySnapshotScheduleInput =
  ScheduleIdentifier :: string
  ScheduleDefinitions :: "string set"

record ModifyClusterSnapshotScheduleInput =
  ClusterIdentifier :: "string option"
  ScheduleIdentifier :: string
  DisassociateSchedule :: bool

record DeleteSnapshotScheduleInput =
  ScheduleIdentifier :: string

section \<open>EC2 traffic mirror filter: SDK types\<close>

record TagSpecification =
  ResourceType :: string
  Tags :: KeyValueTags

record CreateTrafficMirrorFilterInput =
  Description :: "string option"
  TagSpecifications :: "TagSpecification list"

record TrafficMirrorFilter =
  TrafficMirrorFilterId :: "string option"
  Description :: "string option"
  Tags :: KeyValueTags
  NetworkServices :: "string option list"

record CreateTrafficMirrorFilterOutput =
  TrafficMirrorFilter :: TrafficMirrorFilter

record ModifyTrafficMirrorFilterNetworkServicesInput =
  TrafficMirrorFilterId :: string
  AddNetworkServices :: "string set option"
  RemoveNetworkServices :: "string set option"

record DescribeTrafficMirrorFiltersInput =
  TrafficMirrorFilterIds :: "string list"

record DescribeTrafficMirrorFiltersOutput =
  TrafficMirrorFilters :: "TrafficMirrorFilter list"

record DeleteTrafficMirrorFilterInput =
  TrafficMirrorFilterId :: string

definition ResourceTypeTrafficMirrorFilter :: string where
  "ResourceTypeTrafficMirrorFilter = ''traffic-mirror-filter''"

definition ServiceName :: string where
  "ServiceName = ''ec2''"

section \<open>The AWS client and the calls it has issued\<close>

text \<open>
  Every call that an operation issues is appended to a log of calls, which the
  operation takes and returns. The services are outside the program: the answer to a
  call is given by the client, as a function of the calls issued before and of the
  call's input, so the same request may be answered differently at a later time.

  Three helpers that are not among the source files issue calls of their own and are
  logged as one step each, answered by the client like a call.
  Modelled from the spec: the tag-diff primitive (\<open>AccessanalyzerUpdateTags\<close>,
  \<open>RedshiftUpdateTags\<close>, \<open>Ec2UpdateTags\<close> of the missing package \<open>keyvaluetags\<close>) brings
  the tags of the object with the given identifier from the old to the new tag set, and
  may fail.
  Modelled from the spec: \<open>waitForRedshiftSnapshotScheduleAssociationDestroy\<close>, missing
  from the source files, polls until the detachment of the cluster from the schedule is
  confirmed or the given timeout has passed, and may fail.
\<close>

datatype call =
    ListRules ListRulesInput
  | CreateAnalyzer CreateAnalyzerInput
  | GetAnalyzer GetAnalyzerInput
  | DeleteAnalyzer DeleteAnalyzerInput
  | AccessanalyzerUpdateTags string KeyValueTags KeyValueTags
  | CreateSnapshotSchedule CreateSnapshotScheduleInput
  | DescribeSnapshotSchedules DescribeSnapshotSchedulesInput
  | ModifySnapshotSchedule ModifySnapshotScheduleInput
  | ModifyClusterSnapshotSchedule ModifyClusterSnapshotScheduleInput
  | DeleteSnapshotSchedule DeleteSnapshotScheduleInput
  | RedshiftUpdateTags string KeyValueTags KeyValueTags
  | waitForRedshiftSnapshotScheduleAssociationDestroy Duration string string
  | CreateTrafficMirrorFilter CreateTrafficMirrorFilterInput
  | ModifyTrafficMirrorFilterNetworkServices ModifyTrafficMirrorFilterNetworkServicesInput
  | DescribeTrafficMirrorFilters DescribeTrafficMirrorFiltersInput
  | DeleteTrafficMirrorFilter DeleteTrafficMirrorFilterInput
  | Ec2UpdateTags string KeyValueTags KeyValueTags

type_synonym calls = "call list"

record WAFRegional =
  onListRules :: "calls \<Rightarrow> ListRulesInput \<Rightarrow> error + ListRulesOutput"

record AccessAnalyzer =
  onCreateAnalyzer :: "calls \<Rightarrow> CreateAnalyzerInput \<Rightarrow> error option"
  onGetAnalyzer :: "calls \<Rightarrow> GetAnalyzerInput \<Rightarrow> error + GetAnalyzerOutput option"
  onDeleteAnalyzer :: "calls \<Rightarrow> DeleteAnalyzerInput \<Rightarrow> error option"
  onAccessanalyzerUpdateTags :: "calls \<Rightarrow> string \<Rightarrow> KeyValueTags \<Rightarrow> KeyValueTags \<Rightarrow> error option"

record Redshift =
  onCreateSnapshotSchedule ::
    "calls \<Rightarrow> CreateSnapshotScheduleInput \<Rightarrow> error + CreateSnapshotScheduleOutput"
  onDescribeSnapshotSchedules ::
    "calls \<Rightarrow> DescribeSnapshotSchedulesInput \<Rightarrow> error + DescribeSnapshotSchedulesOutput"
  onModifySnapshotSchedule :: "calls \<Rightarrow> ModifySnapshotScheduleInput \<Rightarrow> error option"
  onModifyClusterSnapshotSchedule ::
    "calls \<Rightarrow> ModifyClusterSnapshotScheduleInput \<Rightarrow> error option"
  onDeleteSnapshotSchedule :: "calls \<Rightarrow> DeleteSnapshotScheduleInput \<Rightarrow> error option"
  onRedshiftUpdateTags :: "calls \<Rightarrow> string \<Rightarrow> KeyValueTags \<Rightarrow> KeyValueTags \<Rightarrow> error option"
  onWaitForAssociationDestroy :: "calls \<Rightarrow> Duration \<Rightarrow> string \<Rightarrow> string \<Rightarrow> error option"

record EC2 =
  onCreateTrafficMirrorFilter ::
    "calls \<Rightarrow> CreateTrafficMirrorFilterInput \<Rightarrow> error + CreateTrafficMirrorFilterOutput"
  onModifyTrafficMirrorFilterNetworkServices ::
    "calls \<Rightarrow> ModifyTrafficMirrorFilterNetworkServicesInput \<Rightarrow> error option"
  onDescribeTrafficMirrorFilters ::
    "calls \<Rightarrow> DescribeTrafficMirrorFiltersInput \<Rightarrow> error + DescribeTrafficMirrorFiltersOutput"
  onDeleteTrafficMirrorFilter :: "calls \<Rightarrow> DeleteTrafficMirrorFilterInput \<Rightarrow> error option"
  onEc2UpdateTags :: "calls \<Rightarrow> string \<Rightarrow> KeyValueTags \<Rightarrow> KeyValueTags \<Rightarrow> error option"

text \<open>
  \<open>client.AWSClient\<close>, the \<open>meta\<close> argument of every operation. Two answers of the
  plugin framework are kept with it: the suffix that \<open>resource.UniqueId\<close> generates, and
  the number of further attempts that the retry primitive's backoff fits into a timeout.
\<close>

record AWSClient =
  WAFRegionalConn :: WAFRegional
  AccessAnalyzerConn :: AccessAnalyzer
  RedshiftConn :: Redshift
  EC2Conn :: EC2
  DefaultTagsConfig :: KeyValueTags
  IgnoreTagsConfig :: IgnoreConfig
  Partition :: string
  Region :: string
  AccountID :: string
  UniqueIdSuffix :: "calls \<Rightarrow> string"
  RetriesWithin :: "Duration \<Rightarrow> nat"

text \<open>The result of an operation: the error it returns (\<open>None\<close> for nil), the resource
  data as the operation leaves it, and the log of calls.\<close>

type_synonym 'd result = "error option \<times> 'd \<times> calls"

text \<open>The error of a response, and the output of a successful one.\<close>

definition errOf :: "error + 'a \<Rightarrow> error option" where
  "errOf r = (case r of Inl e \<Rightarrow> Some e | Inr out \<Rightarrow> None)"

section \<open>Data source: WAF regional rule\<close>

record RuleData = ResourceData +
  name :: string

definition conn_ListRules ::
  "WAFRegional \<Rightarrow> ListRulesInput \<Rightarrow> calls \<Rightarrow> (error + ListRulesOutput) \<times> calls" where
  "conn_ListRules conn input tr = (onListRules conn tr input, tr @ [ListRules input])"

text \<open>
  The \<open>for\<close> loop of \<open>dataSourceAwsWafRegionalRuleRead\<close>: it has no bound of its own and
  ends only when a listing fails or a page comes without a next marker, so it is a partial
  function; \<open>None\<close> is the loop that never ends.
\<close>

partial_function (option) listRulesLoop ::
  "WAFRegional \<Rightarrow> string \<Rightarrow> ListRulesInput \<Rightarrow> RuleSummary list \<Rightarrow> calls
     \<Rightarrow> ((error + RuleSummary list) \<times> calls) option" where
  "listRulesLoop conn nm input rules tr =
     (case conn_ListRules conn input tr of
        (Inl err, tr') \<Rightarrow>
          Some (Inl (WrapError (''error reading WAF Rule: '' @ Error err) err), tr')
      | (Inr output, tr') \<Rightarrow>
          (let rules' = rules @ filter (\<lambda>rule. StringValue (RuleSummary.Name rule) = nm)
                                   (Rules output)
           in if ListRulesOutput.NextMarker output = None then Some (Inr rules', tr')
              else listRulesLoop conn nm
                     (input\<lparr>ListRulesInput.NextMarker := ListRulesOutput.NextMarker output\<rparr>)
                     rules' tr'))"

definition dataSourceAwsWafRegionalRuleRead ::
  "RuleData \<Rightarrow> AWSClient \<Rightarrow> calls \<Rightarrow> RuleData result option" where
  "dataSourceAwsWafRegionalRuleRead d meta tr =
     (let conn = WAFRegionalConn meta;
          nm = name d;
          rules = [];
          input = \<lparr>ListRulesInput.NextMarker = None\<rparr>
      in case listRulesLoop conn nm input rules tr of
           None \<Rightarrow> None
         | Some (Inl err, tr') \<Rightarrow> Some (Some err, d, tr')
         | Some (Inr rules, tr') \<Rightarrow>
             (if length rules = 0
              then Some (Some (ErrorString (''WAF Rule not found for name: '' @ nm)), d, tr')
              else if length rules > 1
              then Some (Some (ErrorString (''multiple WAF Rules found for name: '' @ nm)),
                         d, tr')
              else (let rule = rules ! 0
                    in Some (None, SetId (StringValue (RuleId rule)) d, tr'))))"

text \<open>
  What the listing API answers, as a chain of pages: \<open>pagesFrom conn input tr pages tr'\<close>
  holds when the call with \<open>input\<close>, issued after the calls \<open>tr\<close>, and the calls that
  follow each next marker are all answered with a page, these pages are \<open>pages\<close> in this
  order, only the last of them has no next marker, and \<open>tr'\<close> is the log after them.
\<close>

inductive pagesFrom ::
  "WAFRegional \<Rightarrow> ListRulesInput \<Rightarrow> calls \<Rightarrow> ListRulesOutput list \<Rightarrow> calls \<Rightarrow> bool" where
  lastPage:
    "onListRules conn tr input = Inr output \<Longrightarrow> ListRulesOutput.NextMarker output = None
     \<Longrightarrow> pagesFrom conn input tr [output] (tr @ [ListRules input])"
| nextPage:
    "onListRules conn tr input = Inr output \<Longrightarrow> ListRulesOutput.NextMarker output = Some m
     \<Longrightarrow> pagesFrom conn (input\<lparr>ListRulesInput.NextMarker := Some m\<rparr>) (tr @ [ListRules input])
           pages tr'
     \<Longrightarrow> pagesFrom conn input tr (output # pages) tr'"

text \<open>The rules of the pages whose name is the filter, in the order of the listing.\<close>

definition matchingRules :: "string \<Rightarrow> ListRulesOutput list \<Rightarrow> RuleSummary list" where
  "matchingRules nm pages =
     filter (\<lambda>rule. StringValue (RuleSummary.Name rule) = nm) (concat (map Rules pages))"

text \<open>The inputs of the listing calls that a chain of pages answers: the first carries the
  marker \<open>m\<close>, every later one the next marker of the page before it.\<close>

fun pageInputs :: "string option \<Rightarrow> ListRulesOutput list \<Rightarrow> ListRulesInput list" where
  "pageInputs m [] = []"
| "pageInputs m (p # ps) =
     \<lparr>ListRulesInput.NextMarker = m\<rparr> # pageInputs (ListRulesOutput.NextMarker p) ps"

section \<open>The framework's helpers\<close>

text \<open>
  \<open>d.Set(key, value)\<close>: the framework accepts the value and the field changes, or it
  refuses the value with an error and the field stays as it was.
\<close>

definition Set' ::
  "string \<Rightarrow> ('a ResourceData_scheme \<Rightarrow> 'a ResourceData_scheme) \<Rightarrow> 'a ResourceData_scheme
     \<Rightarrow> error option \<times> 'a ResourceData_scheme" where
  "Set' key store d = (case SetError d key of None \<Rightarrow> (None, store d) | Some e \<Rightarrow> (Some e, d))"

text \<open>\<open>resource.PrefixedUniqueId\<close> and \<open>resource.UniqueId\<close>.\<close>

definition PrefixedUniqueId :: "AWSClient \<Rightarrow> string \<Rightarrow> calls \<Rightarrow> string" where
  "PrefixedUniqueId meta pre tr = pre @ UniqueIdSuffix meta tr"

definition UniqueId :: "AWSClient \<Rightarrow> calls \<Rightarrow> string" where
  "UniqueId meta tr = PrefixedUniqueId meta ''terraform-'' tr"

text \<open>\<open>resource.RetryError\<close>, with its constructors.\<close>

record RetryError =
  Err :: "error option"
  Retryable :: bool

definition RetryableError :: "error option \<Rightarrow> RetryError" where
  "RetryableError err = \<lparr>Err = err, Retryable = True\<rparr>"

definition NonRetryableError :: "error option \<Rightarrow> RetryError" where
  "NonRetryableError err = \<lparr>Err = err, Retryable = False\<rparr>"

text \<open>
  Modelled from the spec: \<open>resource.Retry\<close>, the retry-until-timeout primitive of the
  plugin framework, is not among the source files. It runs \<open>f\<close>; a nil answer ends it with
  success, a non-retryable error ends it with that error, and after a retryable error it
  runs \<open>f\<close> again, until the timeout is reached: then it ends with the error of the last
  attempt, the retryable error itself. The framework's own timeout error is its result
  only when the timeout passes before any attempt has returned; here every attempt
  returns its answer. Real time is left out: \<open>retryLoop n\<close> has \<open>n\<close> further attempts
  after the first, and \<open>Retry\<close> takes \<open>n\<close> from the client's \<open>RetriesWithin\<close> at the
  timeout it is given.
\<close>

fun retryLoop ::
  "nat \<Rightarrow> (calls \<Rightarrow> RetryError option \<times> calls) \<Rightarrow> calls \<Rightarrow> error option \<times> calls" where
  "retryLoop 0 f tr =
     (case f tr of
        (None, tr') \<Rightarrow> (None, tr')
      | (Some rerr, tr') \<Rightarrow> (Err rerr, tr'))"
| "retryLoop (Suc n) f tr =
     (case f tr of
        (None, tr') \<Rightarrow> (None, tr')
      | (Some rerr, tr') \<Rightarrow> (if Retryable rerr then retryLoop n f tr' else (Err rerr, tr')))"

definition Retry ::
  "AWSClient \<Rightarrow> Duration \<Rightarrow> (calls \<Rightarrow> RetryError option \<times> calls) \<Rightarrow> calls
     \<Rightarrow> error option \<times> calls" where
  "Retry meta timeout f tr = retryLoop (RetriesWithin meta timeout) f tr"

text \<open>
  Modelled from the spec: \<open>tfresource.TimedOut\<close>, not among the source files: whether the
  error is the timeout error of the retry primitive, without a last error of an attempt.
\<close>

definition TimedOut :: "error option \<Rightarrow> bool" where
  "TimedOut err = (err = Some TimeoutError)"

section \<open>Resource: Access Analyzer analyzer\<close>

record AnalyzerData = TaggedData +
  analyzer_name :: string
  type :: string

definition conn_CreateAnalyzer ::
  "AccessAnalyzer \<Rightarrow> CreateAnalyzerInput \<Rightarrow> calls \<Rightarrow> error option \<times> calls" where
  "conn_CreateAnalyzer conn input tr = (onCreateAnalyzer conn tr input, tr @ [CreateAnalyzer input])"

definition conn_GetAnalyzer ::
  "AccessAnalyzer \<Rightarrow> GetAnalyzerInput \<Rightarrow> calls \<Rightarrow> (error + GetAnalyzerOutput option) \<times> calls" where
  "conn_GetAnalyzer conn input tr = (onGetAnalyzer conn tr input, tr @ [GetAnalyzer input])"

definition conn_DeleteAnalyzer ::
  "AccessAnalyzer \<Rightarrow> DeleteAnalyzerInput \<Rightarrow> calls \<Rightarrow> error option \<times> calls" where
  "conn_DeleteAnalyzer conn input tr = (onDeleteAnalyzer conn tr input, tr @ [DeleteAnalyzer input])"


definition resourceAwsAccessAnalyzerAnalyzerRead ::
  "AnalyzerData \<Rightarrow> AWSClient \<Rightarrow> calls \<Rightarrow> AnalyzerData result" where
  "resourceAwsAccessAnalyzerAnalyzerRead d meta tr =
     (let conn = AccessAnalyzerConn meta;
          defaultTagsConfig = DefaultTagsConfig meta;
          ignoreTagsConfig = IgnoreTagsConfig meta;
          input = \<lparr>GetAnalyzerInput.AnalyzerName = Id d\<rparr>;
          (resp, tr1) = conn_GetAnalyzer conn input tr;
          err = errOf resp
      in if \<not> IsNewResource d \<and> ErrCodeEquals err ErrCodeResourceNotFoundException
         then (None, SetId [] d, tr1)
         else
           (case resp of
              Inl e \<Rightarrow>
                (Some (ErrorString (''error getting Access Analyzer Analyzer ('' @ Id d @ ''): ''
                                    @ Error e)), d, tr1)
            | Inr None \<Rightarrow>
                (Some (ErrorString (''error getting Access Analyzer Analyzer ('' @ Id d
                                    @ ''): empty response'')), d, tr1)
            | Inr (Some output) \<Rightarrow>
                (case Analyzer output of
                   None \<Rightarrow>
                     (Some (ErrorString (''error getting Access Analyzer Analyzer ('' @ Id d
                                         @ ''): empty response'')), d, tr1)
                 | Some a \<Rightarrow>
                     (let (_, d1) = Set' ''analyzer_name''
                                      (\<lambda>d. d\<lparr>analyzer_name := StringValue (AnalyzerSummary.Name a)\<rparr>) d;
                          (_, d2) = Set' ''arn'' (\<lambda>d. d\<lparr>arn := StringValue (Arn a)\<rparr>) d1;
                          tags' = IgnoreConfig ignoreTagsConfig (IgnoreAws (AnalyzerSummary.Tags a))
                      in case Set' ''tags''
                                (\<lambda>d. d\<lparr>tags := RemoveDefaultConfig defaultTagsConfig tags'\<rparr>) d2 of
                           (Some e, d3) \<Rightarrow>
                             (Some (WrapError (''error setting tags: '' @ Error e) e), d3, tr1)
                         | (None, d3) \<Rightarrow>
                             (case Set' ''tags_all'' (\<lambda>d. d\<lparr>tags_all := tags'\<rparr>) d3 of
                                (Some e, d4) \<Rightarrow>
                                  (Some (WrapError (''error setting tags_all: '' @ Error e) e),
                                   d4, tr1)
                              | (None, d4) \<Rightarrow>
                                  (let (_, d5) =
                                         Set' ''type''
                                           (\<lambda>d. d\<lparr>type := StringValue (AnalyzerSummary.Type a)\<rparr>) d4
                                   in (None, d5, tr1)))))))"

text \<open>The function that \<open>resourceAwsAccessAnalyzerAnalyzerCreate\<close> hands to \<open>resource.Retry\<close>.\<close>

definition createAnalyzerAttempt ::
  "AccessAnalyzer \<Rightarrow> CreateAnalyzerInput \<Rightarrow> calls \<Rightarrow> RetryError option \<times> calls" where
  "createAnalyzerAttempt conn input tr =
     (let (err, tr') = conn_CreateAnalyzer conn input tr
      in if ErrMessageContains err ErrCodeValidationException ''You must create an organization''
         then (Some (RetryableError err), tr')
         else if err \<noteq> None
         then (Some (NonRetryableError err), tr')
         else (None, tr'))"

text \<open>The request that \<open>resourceAwsAccessAnalyzerAnalyzerCreate\<close> builds.\<close>

definition createAnalyzerInput :: "AnalyzerData \<Rightarrow> AWSClient \<Rightarrow> calls \<Rightarrow> CreateAnalyzerInput" where
  "createAnalyzerInput d meta tr =
     (let defaultTagsConfig = DefaultTagsConfig meta;
          tags' = MergeTags defaultTagsConfig (tags d);
          analyzerName = analyzer_name d
      in \<lparr>CreateAnalyzerInput.AnalyzerName = analyzerName,
          CreateAnalyzerInput.ClientToken = UniqueId meta tr,
          CreateAnalyzerInput.Tags = IgnoreAws tags',
          CreateAnalyzerInput.Type = type d\<rparr>)"

definition resourceAwsAccessAnalyzerAnalyzerCreate ::
  "AnalyzerData \<Rightarrow> AWSClient \<Rightarrow> calls \<Rightarrow> AnalyzerData result" where
  "resourceAwsAccessAnalyzerAnalyzerCreate d meta tr =
     (let conn = AccessAnalyzerConn meta;
          analyzerName = analyzer_name d;
          input = createAnalyzerInput d meta tr;
          (err, tr1) = Retry meta accessAnalyzerOrganizationCreationTimeout
                         (createAnalyzerAttempt conn input) tr;
          (err, tr2) = (if TimedOut err then conn_CreateAnalyzer conn input tr1 else (err, tr1))
      in case err of
           Some e \<Rightarrow>
             (Some (ErrorString (''error creating Access Analyzer Analyzer ('' @ analyzerName
                                 @ ''): '' @ Error e)), d, tr2)
         | None \<Rightarrow> resourceAwsAccessAnalyzerAnalyzerRead (SetId analyzerName d) meta tr2)"


definition resourceAwsAccessAnalyzerAnalyzerDelete ::
  "AnalyzerData \<Rightarrow> AWSClient \<Rightarrow> calls \<Rightarrow> AnalyzerData result" where
  "resourceAwsAccessAnalyzerAnalyzerDelete d meta tr =
     (let conn = AccessAnalyzerConn meta;
          input = \<lparr>DeleteAnalyzerInput.AnalyzerName = Id d,
                   DeleteAnalyzerInput.ClientToken = UniqueId meta tr\<rparr>;
          (err, tr1) = conn_DeleteAnalyzer conn input tr
      in if ErrMessageContains err ErrCodeResourceNotFoundException []
         then (None, d, tr1)
         else
           (case err of
              Some e \<Rightarrow>
                (Some (ErrorString (''error deleting Access Analyzer Analyzer ('' @ Id d @ ''): ''
                                    @ Error e)), d, tr1)
            | None \<Rightarrow> (None, d, tr1)))"

section \<open>Resource: Redshift snapshot schedule\<close>

record DescribedData = TaggedData +
  description :: string

record SnapshotScheduleData = DescribedData +
  "identifier" :: string
  identifier_prefix :: string
  definitions :: "string set"
  definitions_old :: "string set"
  force_destroy :: bool

text \<open>\<open>arn.ARN{...}.String()\<close> of the SDK.\<close>

definition ARN_String :: "string \<Rightarrow> string \<Rightarrow> string \<Rightarrow> string \<Rightarrow> string \<Rightarrow> string" where
  "ARN_String part service region accountID resource =
     ''arn:'' @ part @ '':'' @ service @ '':'' @ region @ '':'' @ accountID @ '':'' @ resource"

definition conn_CreateSnapshotSchedule ::
  "Redshift \<Rightarrow> CreateSnapshotScheduleInput \<Rightarrow> calls
     \<Rightarrow> (error + CreateSnapshotScheduleOutput) \<times> calls" where
  "conn_CreateSnapshotSchedule conn input tr =
     (onCreateSnapshotSchedule conn tr input, tr @ [CreateSnapshotSchedule input])"

definition conn_DescribeSnapshotSchedules ::
  "Redshift \<Rightarrow> DescribeSnapshotSchedulesInput \<Rightarrow> calls
     \<Rightarrow> (error + DescribeSnapshotSchedulesOutput) \<times> calls" where
  "conn_DescribeSnapshotSchedules conn input tr =
     (onDescribeSnapshotSchedules conn tr input, tr @ [DescribeSnapshotSchedules input])"


definition conn_ModifyClusterSnapshotSchedule ::
  "Redshift \<Rightarrow> ModifyClusterSnapshotScheduleInput \<Rightarrow> calls \<Rightarrow> error option \<times> calls" where
  "conn_ModifyClusterSnapshotSchedule conn input tr =
     (onModifyClusterSnapshotSchedule conn tr input, tr @ [ModifyClusterSnapshotSchedule input])"

definition conn_DeleteSnapshotSchedule ::
  "Redshift \<Rightarrow> DeleteSnapshotScheduleInput \<Rightarrow> calls \<Rightarrow> error option \<times> calls" where
  "conn_DeleteSnapshotSchedule conn input tr =
     (onDeleteSnapshotSchedule conn tr input, tr @ [DeleteSnapshotSchedule input])"


definition waitForAssociationDestroy ::
  "Redshift \<Rightarrow> Duration \<Rightarrow> string \<Rightarrow> string \<Rightarrow> calls \<Rightarrow> error option \<times> calls" where
  "waitForAssociationDestroy conn timeout clusterIdentifier scheduleIdentifier tr =
     (onWaitForAssociationDestroy conn tr timeout clusterIdentifier scheduleIdentifier,
      tr @ [waitForRedshiftSnapshotScheduleAssociationDestroy timeout clusterIdentifier
              scheduleIdentifier])"

definition resourceAwsRedshiftSnapshotScheduleRead ::
  "SnapshotScheduleData \<Rightarrow> AWSClient \<Rightarrow> calls \<Rightarrow> SnapshotScheduleData result" where
  "resourceAwsRedshiftSnapshotScheduleRead d meta tr =
     (let conn = RedshiftConn meta;
          defaultTagsConfig = DefaultTagsConfig meta;
          ignoreTagsConfig = IgnoreTagsConfig meta;
          descOpts = \<lparr>DescribeSnapshotSchedulesInput.ScheduleIdentifier = Id d\<rparr>;
          (resp, tr1) = conn_DescribeSnapshotSchedules conn descOpts tr
      in case resp of
           Inl e \<Rightarrow>
             (Some (ErrorString (''Error describing Redshift Cluster Snapshot Schedule '' @ Id d
                                 @ '': '' @ Error e)), d, tr1)
         | Inr resp \<Rightarrow>
             (if length (SnapshotSchedules resp) \<noteq> 1
              then (None, SetId [] d, tr1)
              else
                (let snapshotSchedule = SnapshotSchedules resp ! 0;
                     (_, d1) = Set' ''identifier''
                                 (\<lambda>d. d\<lparr>identifier :=
                                          StringValue (SnapshotSchedule.ScheduleIdentifier
                                                         snapshotSchedule)\<rparr>) d;
                     (_, d2) = Set' ''description''
                                 (\<lambda>d. d\<lparr>description :=
                                          StringValue (SnapshotSchedule.ScheduleDescription
                                                         snapshotSchedule)\<rparr>) d1
                 in case Set' ''definitions''
                           (\<lambda>d. d\<lparr>definitions :=
                                    set (SnapshotSchedule.ScheduleDefinitions snapshotSchedule)\<rparr>)
                           d2 of
                      (Some e, d3) \<Rightarrow>
                        (Some (ErrorString (''Error setting definitions: '' @ Error e)), d3, tr1)
                    | (None, d3) \<Rightarrow>
                        (let tags' = IgnoreConfig ignoreTagsConfig
                                       (IgnoreAws (SnapshotSchedule.Tags snapshotSchedule))
                         in case Set' ''tags''
                                   (\<lambda>d. d\<lparr>tags := RemoveDefaultConfig defaultTagsConfig tags'\<rparr>)
                                   d3 of
                              (Some e, d4) \<Rightarrow>
                                (Some (WrapError (''error setting tags: '' @ Error e) e), d4, tr1)
                            | (None, d4) \<Rightarrow>
                                (case Set' ''tags_all'' (\<lambda>d. d\<lparr>tags_all := tags'\<rparr>) d4 of
                                   (Some e, d5) \<Rightarrow>
                                     (Some (WrapError (''error setting tags_all: '' @ Error e) e),
                                      d5, tr1)
                                 | (None, d5) \<Rightarrow>
                                     (let arn' = ARN_String (Partition meta) ''redshift''
                                                   (Region meta) (AccountID meta)
                                                   (''snapshotschedule:'' @ Id d5);
                                          (_, d6) = Set' ''arn'' (\<lambda>d. d\<lparr>arn := arn'\<rparr>) d5
                                      in (None, d6, tr1)))))))"

text \<open>The request that \<open>resourceAwsRedshiftSnapshotScheduleCreate\<close> builds.\<close>

definition createSnapshotScheduleInput ::
  "SnapshotScheduleData \<Rightarrow> AWSClient \<Rightarrow> calls \<Rightarrow> CreateSnapshotScheduleInput" where
  "createSnapshotScheduleInput d meta tr =
     (let defaultTagsConfig = DefaultTagsConfig meta;
          tags' = MergeTags defaultTagsConfig (tags d);
          identifier' =
            (if identifier d \<noteq> [] then identifier d
             else if identifier_prefix d \<noteq> [] then PrefixedUniqueId meta (identifier_prefix d) tr
             else UniqueId meta tr);
          createOpts =
            \<lparr>CreateSnapshotScheduleInput.ScheduleIdentifier = identifier',
             CreateSnapshotScheduleInput.ScheduleDefinitions = definitions d,
             CreateSnapshotScheduleInput.Tags = IgnoreAws tags',
             CreateSnapshotScheduleInput.ScheduleDescription = None\<rparr>
      in if description d \<noteq> []
         then createOpts\<lparr>CreateSnapshotScheduleInput.ScheduleDescription := Some (description d)\<rparr>
         else createOpts)"

definition resourceAwsRedshiftSnapshotScheduleCreate ::
  "SnapshotScheduleData \<Rightarrow> AWSClient \<Rightarrow> calls \<Rightarrow> SnapshotScheduleData result" where
  "resourceAwsRedshiftSnapshotScheduleCreate d meta tr =
     (let conn = RedshiftConn meta;
          createOpts = createSnapshotScheduleInput d meta tr;
          (resp, tr1) = conn_CreateSnapshotSchedule conn createOpts tr
      in case resp of
           Inl e \<Rightarrow>
             (Some (ErrorString (''Error creating Redshift Snapshot Schedule: '' @ Error e)),
              d, tr1)
         | Inr resp \<Rightarrow>
             resourceAwsRedshiftSnapshotScheduleRead
               (SetId (StringValue (CreateSnapshotScheduleOutput.ScheduleIdentifier resp)) d)
               meta tr1)"


text \<open>The first \<open>for\<close> loop of the force-destroy helper: one disassociate call for each
  associated cluster.\<close>

fun disassociateClusters ::
  "Redshift \<Rightarrow> string \<Rightarrow> ClusterAssociatedToSchedule list \<Rightarrow> calls \<Rightarrow> error option \<times> calls" where
  "disassociateClusters conn scheduleIdentifier [] tr = (None, tr)"
| "disassociateClusters conn scheduleIdentifier (associatedCluster # rest) tr =
     (let (err, tr1) =
            conn_ModifyClusterSnapshotSchedule conn
              \<lparr>ModifyClusterSnapshotScheduleInput.ClusterIdentifier =
                 ClusterAssociatedToSchedule.ClusterIdentifier associatedCluster,
               ModifyClusterSnapshotScheduleInput.ScheduleIdentifier = scheduleIdentifier,
               DisassociateSchedule = True\<rparr> tr
      in if ErrMessageContains err ErrCodeClusterNotFoundFault []
         then disassociateClusters conn scheduleIdentifier rest tr1
         else if ErrMessageContains err ErrCodeSnapshotScheduleNotFoundFault []
         then disassociateClusters conn scheduleIdentifier rest tr1
         else
           (case err of
              Some e \<Rightarrow>
                (Some (ErrorString
                         (''Error disassociate Redshift Cluster (''
                          @ StringValue (ClusterAssociatedToSchedule.ClusterIdentifier
                                           associatedCluster)
                          @ '') and Snapshot Schedule ('' @ scheduleIdentifier
                          @ '') Association: '' @ Error e)), tr1)
            | None \<Rightarrow> disassociateClusters conn scheduleIdentifier rest tr1))"

text \<open>The second \<open>for\<close> loop of the helper: one bounded wait for each associated cluster.\<close>

fun waitForClusters ::
  "Redshift \<Rightarrow> string \<Rightarrow> ClusterAssociatedToSchedule list \<Rightarrow> calls \<Rightarrow> error option \<times> calls" where
  "waitForClusters conn scheduleIdentifier [] tr = (None, tr)"
| "waitForClusters conn scheduleIdentifier (associatedCluster # rest) tr =
     (case waitForAssociationDestroy conn (75 * Minute)
             (StringValue (ClusterAssociatedToSchedule.ClusterIdentifier associatedCluster))
             scheduleIdentifier tr of
        (Some e, tr1) \<Rightarrow> (Some e, tr1)
      | (None, tr1) \<Rightarrow> waitForClusters conn scheduleIdentifier rest tr1)"

definition resourceAwsRedshiftSnapshotScheduleDeleteAllAssociatedClusters ::
  "Redshift \<Rightarrow> string \<Rightarrow> calls \<Rightarrow> error option \<times> calls" where
  "resourceAwsRedshiftSnapshotScheduleDeleteAllAssociatedClusters conn scheduleIdentifier tr =
     (let (resp, tr1) =
            conn_DescribeSnapshotSchedules conn
              \<lparr>DescribeSnapshotSchedulesInput.ScheduleIdentifier = scheduleIdentifier\<rparr> tr
      in if ErrMessageContains (errOf resp) ErrCodeSnapshotScheduleNotFoundFault []
         then (None, tr1)
         else
           (case resp of
              Inl e \<Rightarrow>
                (Some (ErrorString (''Error describing Redshift Cluster Snapshot Schedule ''
                                    @ scheduleIdentifier @ '': '' @ Error e)), tr1)
            | Inr resp \<Rightarrow>
                (if length (SnapshotSchedules resp) \<noteq> 1
                 then (None, tr1)
                 else
                   (let snapshotSchedule = SnapshotSchedules resp ! 0
                    in case disassociateClusters conn scheduleIdentifier
                              (AssociatedClusters snapshotSchedule) tr1 of
                         (Some e, tr2) \<Rightarrow> (Some e, tr2)
                       | (None, tr2) \<Rightarrow>
                           waitForClusters conn scheduleIdentifier
                             (AssociatedClusters snapshotSchedule) tr2))))"

definition resourceAwsRedshiftSnapshotScheduleDelete ::
  "SnapshotScheduleData \<Rightarrow> AWSClient \<Rightarrow> calls \<Rightarrow> SnapshotScheduleData result" where
  "resourceAwsRedshiftSnapshotScheduleDelete d meta tr =
     (let conn = RedshiftConn meta;
          (err, tr1) =
            (if force_destroy d
             then resourceAwsRedshiftSnapshotScheduleDeleteAllAssociatedClusters conn (Id d) tr
             else (None, tr))
      in case err of
           Some e \<Rightarrow> (Some e, d, tr1)
         | None \<Rightarrow>
             (let (err, tr2) =
                    conn_DeleteSnapshotSchedule conn
                      \<lparr>DeleteSnapshotScheduleInput.ScheduleIdentifier = Id d\<rparr> tr1
              in if ErrMessageContains err ErrCodeSnapshotScheduleNotFoundFault []
                 then (None, d, tr2)
                 else
                   (case err of
                      Some e \<Rightarrow>
                        (Some (ErrorString (''Error deleting Redshift Snapshot Schedule '' @ Id d
                                            @ '': '' @ Error e)), d, tr2)
                    | None \<Rightarrow> (None, d, tr2))))"

section \<open>Resource: EC2 traffic mirror filter\<close>

record TrafficMirrorFilterData = DescribedData +
  network_services :: "string set"
  network_services_old :: "string set"

text \<open>
  Modelled from the spec: \<open>ec2TagSpecificationsFromKeyValueTags\<close> is not among the source
  files. It wraps the tags, without the AWS-reserved ones, into one tag specification of
  the given resource type, and gives no tag specification for an empty tag set.
\<close>

definition ec2TagSpecificationsFromKeyValueTags ::
  "KeyValueTags \<Rightarrow> string \<Rightarrow> TagSpecification list" where
  "ec2TagSpecificationsFromKeyValueTags tags' t =
     (if tags' = Map.empty then []
      else [\<lparr>ResourceType = t, TagSpecification.Tags = IgnoreAws tags'\<rparr>])"

definition conn_CreateTrafficMirrorFilter ::
  "EC2 \<Rightarrow> CreateTrafficMirrorFilterInput \<Rightarrow> calls
     \<Rightarrow> (error + CreateTrafficMirrorFilterOutput) \<times> calls" where
  "conn_CreateTrafficMirrorFilter conn input tr =
     (onCreateTrafficMirrorFilter conn tr input, tr @ [CreateTrafficMirrorFilter input])"

definition conn_ModifyTrafficMirrorFilterNetworkServices ::
  "EC2 \<Rightarrow> ModifyTrafficMirrorFilterNetworkServicesInput \<Rightarrow> calls \<Rightarrow> error option \<times> calls" where
  "conn_ModifyTrafficMirrorFilterNetworkServices conn input tr =
     (onModifyTrafficMirrorFilterNetworkServices conn tr input,
      tr @ [ModifyTrafficMirrorFilterNetworkServices input])"

definition conn_DescribeTrafficMirrorFilters ::
  "EC2 \<Rightarrow> DescribeTrafficMirrorFiltersInput \<Rightarrow> calls
     \<Rightarrow> (error + DescribeTrafficMirrorFiltersOutput) \<times> calls" where
  "conn_DescribeTrafficMirrorFilters conn input tr =
     (onDescribeTrafficMirrorFilters conn tr input, tr @ [DescribeTrafficMirrorFilters input])"

definition conn_DeleteTrafficMirrorFilter ::
  "EC2 \<Rightarrow> DeleteTrafficMirrorFilterInput \<Rightarrow> calls \<Rightarrow> error option \<times> calls" where
  "conn_DeleteTrafficMirrorFilter conn input tr =
     (onDeleteTrafficMirrorFilter conn tr input, tr @ [DeleteTrafficMirrorFilter input])"

definition keyvaluetags_Ec2UpdateTags ::
  "EC2 \<Rightarrow> string \<Rightarrow> KeyValueTags \<Rightarrow> KeyValueTags \<Rightarrow> calls \<Rightarrow> error option \<times> calls" where
  "keyvaluetags_Ec2UpdateTags conn ident oldTags newTags tr =
     (onEc2UpdateTags conn tr ident oldTags newTags, tr @ [Ec2UpdateTags ident oldTags newTags])"

definition resourceAwsEc2TrafficMirrorFilterRead ::
  "TrafficMirrorFilterData \<Rightarrow> AWSClient \<Rightarrow> calls \<Rightarrow> TrafficMirrorFilterData result" where
  "resourceAwsEc2TrafficMirrorFilterRead d meta tr =
     (let conn = EC2Conn meta;
          defaultTagsConfig = DefaultTagsConfig meta;
          ignoreTagsConfig = IgnoreTagsConfig meta;
          input = \<lparr>TrafficMirrorFilterIds = [Id d]\<rparr>;
          (out, tr1) = conn_DescribeTrafficMirrorFilters conn input tr
      in if ErrMessageContains (errOf out) ''InvalidTrafficMirrorFilterId.NotFound'' []
         then (None, SetId [] d, tr1)
         else
           (case out of
              Inl e \<Rightarrow>
                (Some (ErrorString (''Error describing traffic mirror filter '' @ Id d @ '': ''
                                    @ Error e)), d, tr1)
            | Inr out \<Rightarrow>
                (if length (TrafficMirrorFilters out) = 0
                 then (None, SetId [] d, tr1)
                 else
                   (let trafficMirrorFilter = TrafficMirrorFilters out ! 0;
                        (_, d1) = Set' ''description''
                                    (\<lambda>d. d\<lparr>description :=
                                             StringValue (TrafficMirrorFilter.Description
                                                            trafficMirrorFilter)\<rparr>) d;
                        tags' = IgnoreConfig ignoreTagsConfig
                                  (IgnoreAws (TrafficMirrorFilter.Tags trafficMirrorFilter))
                    in case Set' ''tags''
                              (\<lambda>d. d\<lparr>tags := RemoveDefaultConfig defaultTagsConfig tags'\<rparr>) d1 of
                         (Some e, d2) \<Rightarrow>
                           (Some (WrapError (''error setting tags: '' @ Error e) e), d2, tr1)
                       | (None, d2) \<Rightarrow>
                           (case Set' ''tags_all'' (\<lambda>d. d\<lparr>tags_all := tags'\<rparr>) d2 of
                              (Some e, d3) \<Rightarrow>
                                (Some (WrapError (''error setting tags_all: '' @ Error e) e),
                                 d3, tr1)
                            | (None, d3) \<Rightarrow>
                                (case Set' ''network_services''
                                        (\<lambda>d. d\<lparr>network_services :=
                                                 set (map StringValue
                                                        (NetworkServices trafficMirrorFilter))\<rparr>)
                                        d3 of
                                   (Some e, d4) \<Rightarrow>
                                     (Some (ErrorString
                                              (''error setting network_services for filter ''
                                               @ Id d4 @ '': '' @ Error e)), d4, tr1)
                                 | (None, d4) \<Rightarrow>
                                     (let arn' = ARN_String (Partition meta) ServiceName
                                                   (Region meta) (AccountID meta)
                                                   (''traffic-mirror-filter/'' @ Id d4);
                                          (_, d5) = Set' ''arn'' (\<lambda>d. d\<lparr>arn := arn'\<rparr>) d4
                                      in (None, d5, tr1))))))))"

text \<open>The request that \<open>resourceAwsEc2TrafficMirrorFilterCreate\<close> builds.\<close>

definition createTrafficMirrorFilterInput ::
  "TrafficMirrorFilterData \<Rightarrow> AWSClient \<Rightarrow> CreateTrafficMirrorFilterInput" where
  "createTrafficMirrorFilterInput d meta =
     (let defaultTagsConfig = DefaultTagsConfig meta;
          tags' = MergeTags defaultTagsConfig (tags d);
          input = \<lparr>CreateTrafficMirrorFilterInput.Description = None, TagSpecifications = []\<rparr>;
          input = (if description d \<noteq> []
                   then input\<lparr>CreateTrafficMirrorFilterInput.Description := Some (description d)\<rparr>
                   else input)
      in if tags' \<noteq> Map.empty
         then input\<lparr>TagSpecifications :=
                      ec2TagSpecificationsFromKeyValueTags tags' ResourceTypeTrafficMirrorFilter\<rparr>
         else input)"

definition resourceAwsEc2TrafficMirrorFilterCreate ::
  "TrafficMirrorFilterData \<Rightarrow> AWSClient \<Rightarrow> calls \<Rightarrow> TrafficMirrorFilterData result" where
  "resourceAwsEc2TrafficMirrorFilterCreate d meta tr =
     (let conn = EC2Conn meta;
          input = createTrafficMirrorFilterInput d meta;
          (out, tr1) = conn_CreateTrafficMirrorFilter conn input tr
      in case out of
           Inl e \<Rightarrow>
             (Some (ErrorString (''Error while creating traffic filter '' @ Error e)), d, tr1)
         | Inr out \<Rightarrow>
             (let d1 = SetId (StringValue (TrafficMirrorFilter.TrafficMirrorFilterId
                                             (TrafficMirrorFilter out))) d
              in if network_services d1 \<noteq> {}
                 then
                   (let input = \<lparr>ModifyTrafficMirrorFilterNetworkServicesInput.TrafficMirrorFilterId
                                    = Id d1,
                                  AddNetworkServices = Some (network_services d1),
                                  RemoveNetworkServices = None\<rparr>;
                        (err, tr2) = conn_ModifyTrafficMirrorFilterNetworkServices conn input tr1
                    in case err of
                         Some e \<Rightarrow>
                           (Some (WrapError (''error modifying EC2 Traffic Mirror Filter ('' @ Id d1
                                             @ '') network services: '' @ Error e) e), d1, tr2)
                       | None \<Rightarrow> resourceAwsEc2TrafficMirrorFilterRead d1 meta tr2)
                 else resourceAwsEc2TrafficMirrorFilterRead d1 meta tr1))"

text \<open>The request that \<open>resourceAwsEc2TrafficMirrorFilterUpdate\<close> builds when
  \<open>network_services\<close> has changed.\<close>

definition modifyNetworkServicesInput ::
  "TrafficMirrorFilterData \<Rightarrow> ModifyTrafficMirrorFilterNetworkServicesInput" where
  "modifyNetworkServicesInput d =
     (let input = \<lparr>ModifyTrafficMirrorFilterNetworkServicesInput.TrafficMirrorFilterId = Id d,
                   AddNetworkServices = None,
                   RemoveNetworkServices = None\<rparr>;
          (o', n') = (network_services_old d, network_services d);
          newServices = n' - o';
          input = (if newServices \<noteq> {} then input\<lparr>AddNetworkServices := Some newServices\<rparr>
                   else input);
          removeServices = o' - n'
      in if removeServices \<noteq> {} then input\<lparr>RemoveNetworkServices := Some removeServices\<rparr>
         else input)"

definition resourceAwsEc2TrafficMirrorFilterUpdate ::
  "TrafficMirrorFilterData \<Rightarrow> AWSClient \<Rightarrow> calls \<Rightarrow> TrafficMirrorFilterData result" where
  "resourceAwsEc2TrafficMirrorFilterUpdate d meta tr =
     (let conn = EC2Conn meta;
          (err, tr1) =
            (if network_services_old d \<noteq> network_services d
             then conn_ModifyTrafficMirrorFilterNetworkServices conn (modifyNetworkServicesInput d) tr
             else (None, tr))
      in case err of
           Some e \<Rightarrow>
             (Some (WrapError (''error modifying EC2 Traffic Mirror Filter ('' @ Id d
                               @ '') network services: '' @ Error e) e), d, tr1)
         | None \<Rightarrow>
             (let (err, tr2) =
                    (if tags_all_old d \<noteq> tags_all d
                     then keyvaluetags_Ec2UpdateTags conn (Id d) (tags_all_old d) (tags_all d) tr1
                     else (None, tr1))
              in case err of
                   Some e \<Rightarrow>
                     (Some (ErrorString (''error updating EC2 Traffic Mirror Filter ('' @ Id d
                                         @ '') tags: '' @ Error e)), d, tr2)
                 | None \<Rightarrow> resourceAwsEc2TrafficMirrorFilterRead d meta tr2))"

definition resourceAwsEc2TrafficMirrorFilterDelete ::
  "TrafficMirrorFilterData \<Rightarrow> AWSClient \<Rightarrow> calls \<Rightarrow> TrafficMirrorFilterData result" where
  "resourceAwsEc2TrafficMirrorFilterDelete d meta tr =
     (let conn = EC2Conn meta;
          input = \<lparr>DeleteTrafficMirrorFilterInput.TrafficMirrorFilterId = Id d\<rparr>;
          (err, tr1) = conn_DeleteTrafficMirrorFilter conn input tr
      in case err of
           Some e \<Rightarrow>
             (Some (ErrorString (''Error deleting traffic mirror filter '' @ Id d @ '': ''
                                 @ Error e)), d, tr1)
         | None \<Rightarrow> (None, d, tr1))"

section \<open>Conditions on the answers of the services\<close>

text \<open>The error that \<open>resourceAwsAccessAnalyzerAnalyzerCreate\<close> retries on.\<close>

definition organizationNotReady :: "error option \<Rightarrow> bool" where
  "organizationNotReady err =
     ErrMessageContains err ErrCodeValidationException ''You must create an organization''"

text \<open>The tag set that a Create sends: the default tags and the resource's own tags, the
  resource's value on a key that both have, without the keys that carry the prefix
  \<open>aws:\<close>.\<close>

definition sentTags :: "KeyValueTags \<Rightarrow> KeyValueTags \<Rightarrow> KeyValueTags" where
  "sentTags defaultTags resourceTags =
     (\<lambda>k. if prefix ''aws:'' k then None
          else (case resourceTags k of Some v \<Rightarrow> Some v | None \<Rightarrow> defaultTags k))"

text \<open>The disassociate request for one cluster, the calls that the force-destroy helper
  issues for a list of associated clusters (first the disassociate calls, then the
  waits of 75 minutes), and the answers to a disassociate call after which the helper
  goes on: success and the two not-found codes.\<close>

definition disassociateInput ::
  "string \<Rightarrow> ClusterAssociatedToSchedule \<Rightarrow> ModifyClusterSnapshotScheduleInput" where
  "disassociateInput scheduleIdentifier c =
     \<lparr>ModifyClusterSnapshotScheduleInput.ClusterIdentifier =
        ClusterAssociatedToSchedule.ClusterIdentifier c,
      ModifyClusterSnapshotScheduleInput.ScheduleIdentifier = scheduleIdentifier,
      DisassociateSchedule = True\<rparr>"

definition disassociateCalls :: "string \<Rightarrow> ClusterAssociatedToSchedule list \<Rightarrow> calls" where
  "disassociateCalls scheduleIdentifier cs =
     map (\<lambda>c. ModifyClusterSnapshotSchedule (disassociateInput scheduleIdentifier c)) cs"

definition waitCalls :: "string \<Rightarrow> ClusterAssociatedToSchedule list \<Rightarrow> calls" where
  "waitCalls scheduleIdentifier cs =
     map (\<lambda>c. waitForRedshiftSnapshotScheduleAssociationDestroy (75 * Minute)
                (StringValue (ClusterAssociatedToSchedule.ClusterIdentifier c))
                scheduleIdentifier) cs"

definition disassociationPasses :: "error option \<Rightarrow> bool" where
  "disassociationPasses err =
     (err = None \<or> ErrCodeEquals err ErrCodeClusterNotFoundFault
      \<or> ErrCodeEquals err ErrCodeSnapshotScheduleNotFoundFault)"



section \<open>Annotated errors\<close>



section \<open>Example inputs\<close>

text \<open>A client whose services answer every call with success and an empty output.\<close>

definition quietClient :: AWSClient where
  "quietClient =
     \<lparr>WAFRegionalConn =
        \<lparr>onListRules = (\<lambda>tr input. Inr \<lparr>ListRulesOutput.NextMarker = None, Rules = []\<rparr>)\<rparr>,
      AccessAnalyzerConn =
        \<lparr>onCreateAnalyzer = (\<lambda>tr input. None),
         onGetAnalyzer = (\<lambda>tr input. Inr None),
         onDeleteAnalyzer = (\<lambda>tr input. None),
         onAccessanalyzerUpdateTags = (\<lambda>tr ident oldTags newTags. None)\<rparr>,
      RedshiftConn =
        \<lparr>onCreateSnapshotSchedule =
           (\<lambda>tr input. Inr \<lparr>CreateSnapshotScheduleOutput.ScheduleIdentifier = None\<rparr>),
         onDescribeSnapshotSchedules = (\<lambda>tr input. Inr \<lparr>SnapshotSchedules = []\<rparr>),
         onModifySnapshotSchedule = (\<lambda>tr input. None),
         onModifyClusterSnapshotSchedule = (\<lambda>tr input. None),
         onDeleteSnapshotSchedule = (\<lambda>tr input. None),
         onRedshiftUpdateTags = (\<lambda>tr ident oldTags newTags. None),
         onWaitForAssociationDestroy = (\<lambda>tr timeout cluster schedule. None)\<rparr>,
      EC2Conn =
        \<lparr>onCreateTrafficMirrorFilter =
           (\<lambda>tr input. Inr \<lparr>TrafficMirrorFilter =
                                \<lparr>TrafficMirrorFilter.TrafficMirrorFilterId = None,
                                 TrafficMirrorFilter.Description = None,
                                 TrafficMirrorFilter.Tags = Map.empty,
                                 NetworkServices = []\<rparr>\<rparr>),
         onModifyTrafficMirrorFilterNetworkServices = (\<lambda>tr input. None),
         onDescribeTrafficMirrorFilters = (\<lambda>tr input. Inr \<lparr>TrafficMirrorFilters = []\<rparr>),
         onDeleteTrafficMirrorFilter = (\<lambda>tr input. None),
         onEc2UpdateTags = (\<lambda>tr ident oldTags newTags. None)\<rparr>,
      DefaultTagsConfig = Map.empty,
      IgnoreTagsConfig = \<lparr>Keys = {}, KeyPrefixes = []\<rparr>,
      Partition = ''aws'',
      Region = ''us-east-1'',
      AccountID = ''123456789012'',
      UniqueIdSuffix = (\<lambda>tr. ''20211001000000000000000001''),
      RetriesWithin = (\<lambda>timeout. 2)\<rparr>"

text \<open>A listing of three rules on two pages; two of the rules are named \<open>foo\<close>.\<close>

definition rulesPage1 :: ListRulesOutput where
  "rulesPage1 =
     \<lparr>ListRulesOutput.NextMarker = Some ''m1'',
      Rules = [\<lparr>RuleSummary.Name = Some ''foo'', RuleId = Some ''rule-1''\<rparr>,
               \<lparr>RuleSummary.Name = Some ''bar'', RuleId = Some ''rule-2''\<rparr>]\<rparr>"

definition rulesPage2 :: ListRulesOutput where
  "rulesPage2 =
     \<lparr>ListRulesOutput.NextMarker = None,
      Rules = [\<lparr>RuleSummary.Name = Some ''foo'', RuleId = Some ''rule-3''\<rparr>]\<rparr>"

definition twoPageClient :: AWSClient where
  "twoPageClient =
     quietClient\<lparr>WAFRegionalConn :=
       \<lparr>onListRules = (\<lambda>tr input. if ListRulesInput.NextMarker input = None
                                    then Inr rulesPage1 else Inr rulesPage2)\<rparr>\<rparr>"

definition ruleQuery :: "string \<Rightarrow> RuleData" where
  "ruleQuery nm = \<lparr>Id = [], IsNewResource = False, SetError = (\<lambda>key. None), name = nm\<rparr>"

text \<open>Resource data: a schedule and a filter with an ID and no pending change, an analyzer
  and a schedule as they are before their Create.\<close>

definition scheduleData :: SnapshotScheduleData where
  "scheduleData =
     \<lparr>Id = ''nightly'', IsNewResource = False, SetError = (\<lambda>key. None),
      arn = ''arn:aws:redshift:us-east-1:123456789012:snapshotschedule:nightly'',
      tags = Map.empty, tags_all = Map.empty, tags_all_old = Map.empty,
      description = [], identifier = ''nightly'', identifier_prefix = [],
      definitions = {''rate(12 hours)''}, definitions_old = {''rate(12 hours)''},
      force_destroy = False\<rparr>"

definition filterData :: TrafficMirrorFilterData where
  "filterData =
     \<lparr>Id = ''tmf-0123'', IsNewResource = False, SetError = (\<lambda>key. None),
      arn = ''arn:aws:ec2:us-east-1:123456789012:traffic-mirror-filter/tmf-0123'',
      tags = Map.empty, tags_all = Map.empty, tags_all_old = Map.empty,
      description = [], network_services = {}, network_services_old = {}\<rparr>"

definition newAnalyzerData :: AnalyzerData where
  "newAnalyzerData =
     \<lparr>Id = [], IsNewResource = True, SetError = (\<lambda>key. None),
      arn = [], tags = Map.empty, tags_all = Map.empty, tags_all_old = Map.empty,
      analyzer_name = ''example'', type = ''ORGANIZATION''\<rparr>"


text \<open>Errors of the services.\<close>

definition filterNotFound :: error where
  "filterNotFound =
     AwsErr ''InvalidTrafficMirrorFilterId.NotFound'' ''The traffic mirror filter does not exist''"

definition organizationError :: error where
  "organizationError =
     AwsErr ''ValidationException''
       ''You must create an organization before creating an organization analyzer.''"


definition clusterNotFound :: error where
  "clusterNotFound = AwsErr ''ClusterNotFound'' ''Cluster not found''"

definition invalidClusterState :: error where
  "invalidClusterState = AwsErr ''InvalidClusterState'' ''The cluster is not available''"


text \<open>A client whose EC2 service reports the traffic mirror filter as not found, on
  Describe and on Delete.\<close>

definition goneFilterClient :: AWSClient where
  "goneFilterClient =
     quietClient\<lparr>EC2Conn :=
       (EC2Conn quietClient)
         \<lparr>onDescribeTrafficMirrorFilters := (\<lambda>tr input. Inl filterNotFound),
          onDeleteTrafficMirrorFilter := (\<lambda>tr input. Some filterNotFound)\<rparr>\<rparr>"

text \<open>A snapshot schedule as the service describes it, with the given associated clusters,
  and a client whose Redshift service describes the given schedules.\<close>

definition describedSchedule :: "string list \<Rightarrow> SnapshotSchedule" where
  "describedSchedule clusters =
     \<lparr>SnapshotSchedule.ScheduleIdentifier = Some ''nightly'',
      SnapshotSchedule.ScheduleDescription = None,
      SnapshotSchedule.ScheduleDefinitions = [''rate(12 hours)''],
      SnapshotSchedule.Tags = Map.empty,
      AssociatedClusters =
        map (\<lambda>c. \<lparr>ClusterAssociatedToSchedule.ClusterIdentifier = Some c\<rparr>) clusters\<rparr>"

definition describingClient :: "SnapshotSchedule list \<Rightarrow> AWSClient" where
  "describingClient schedules =
     quietClient\<lparr>RedshiftConn :=
       (RedshiftConn quietClient)
         \<lparr>onDescribeSnapshotSchedules := (\<lambda>tr input. Inr \<lparr>SnapshotSchedules = schedules\<rparr>)\<rparr>\<rparr>"

text \<open>A client whose Redshift service describes the given schedules and answers every
  disassociate call as given.\<close>

definition disassociatingClient :: "SnapshotSchedule list \<Rightarrow> error option \<Rightarrow> AWSClient" where
  "disassociatingClient schedules answer =
     quietClient\<lparr>RedshiftConn :=
       (RedshiftConn quietClient)
         \<lparr>onDescribeSnapshotSchedules := (\<lambda>tr input. Inr \<lparr>SnapshotSchedules = schedules\<rparr>),
          onModifyClusterSnapshotSchedule := (\<lambda>tr input. answer)\<rparr>\<rparr>"


text \<open>A client whose Access Analyzer service answers the create call with the organization
  error while the log has fewer than \<open>k\<close> calls and with the given answer afterwards, and
  which answers the get call as given.\<close>

definition organizationClient ::
  "nat \<Rightarrow> error option \<Rightarrow> (error + GetAnalyzerOutput option) \<Rightarrow> AWSClient" where
  "organizationClient k createAnswer getAnswer =
     quietClient\<lparr>AccessAnalyzerConn :=
       (AccessAnalyzerConn quietClient)
         \<lparr>onCreateAnalyzer :=
            (\<lambda>tr input. if length tr < k then Some organizationError else createAnswer),
          onGetAnalyzer := (\<lambda>tr input. getAnswer)\<rparr>\<rparr>"

text \<open>A client with the given default tags.\<close>

definition defaultTagsClient :: "KeyValueTags \<Rightarrow> AWSClient" where
  "defaultTagsClient defaultTags = quietClient\<lparr>DefaultTagsConfig := defaultTags\<rparr>"






section \<open>Verification: the WAF regional rule data source\<close>

text \<open>When the listing is answered by a chain of pages, the loop ends after the last page
  and has collected the matching rules of all pages.\<close>

lemma listRulesLoop_pages:
  "pagesFrom conn input tr pages tr' \<Longrightarrow>
   listRulesLoop conn nm input rules tr = Some (Inr (rules @ matchingRules nm pages), tr')"
proof (induction arbitrary: rules rule: pagesFrom.induct)
  case (lastPage conn tr inp out)
  then show ?case
    by (subst listRulesLoop.simps) (simp add: conn_ListRules_def matchingRules_def)
next
  case (nextPage conn tr inp out m pages tr2)
  show ?case
    by (subst listRulesLoop.simps)
       (simp add: conn_ListRules_def nextPage.hyps nextPage.IH matchingRules_def)
qed

lemma pagesFrom_calls:
  "pagesFrom conn input tr pages tr' \<Longrightarrow>
   tr' = tr @ map ListRules (pageInputs (ListRulesInput.NextMarker input) pages)"
  by (induction rule: pagesFrom.induct) simp_all

text \<open>
  Claim C1. When the listing API answers with a chain of pages that ends with a page
  without next marker, the data source's read returns: it has issued one listing call per
  page, the first without marker and each later one with the next marker of the page
  before, and it has collected the rules of all pages whose name equals the filter. With
  no such rule it returns the error "WAF Rule not found for name: ...", with two or more
  the error "multiple WAF Rules found for name: ..." (the resource data unchanged in both
  cases), and with exactly one it returns no error and has set the resource ID to the
  \<open>RuleId\<close> of that rule.
\<close>

theorem C1_waf_rule_lookup:
  assumes "pagesFrom (WAFRegionalConn meta) \<lparr>ListRulesInput.NextMarker = None\<rparr> tr pages tr'"
  shows "dataSourceAwsWafRegionalRuleRead d meta tr =
           Some (case matchingRules (name d) pages of
                   [] \<Rightarrow> (Some (ErrorString (''WAF Rule not found for name: '' @ name d)), d, tr')
                 | [rule] \<Rightarrow> (None, d\<lparr>Id := StringValue (RuleId rule)\<rparr>, tr')
                 | rule # rule' # rules \<Rightarrow>
                     (Some (ErrorString (''multiple WAF Rules found for name: '' @ name d)),
                      d, tr'))
         \<and> tr' = tr @ map ListRules (pageInputs None pages)"
proof
  have loop: "listRulesLoop (WAFRegionalConn meta) (name d) \<lparr>ListRulesInput.NextMarker = None\<rparr> [] tr
                = Some (Inr (matchingRules (name d) pages), tr')"
    using listRulesLoop_pages [OF assms, of "name d" "[]"] by simp
  show "dataSourceAwsWafRegionalRuleRead d meta tr =
           Some (case matchingRules (name d) pages of
                   [] \<Rightarrow> (Some (ErrorString (''WAF Rule not found for name: '' @ name d)), d, tr')
                 | [rule] \<Rightarrow> (None, d\<lparr>Id := StringValue (RuleId rule)\<rparr>, tr')
                 | rule # rule' # rules \<Rightarrow>
                     (Some (ErrorString (''multiple WAF Rules found for name: '' @ name d)),
                      d, tr'))"
    by (simp add: dataSourceAwsWafRegionalRuleRead_def loop SetId_def split: list.splits)
  show "tr' = tr @ map ListRules (pageInputs None pages)"
    using pagesFrom_calls [OF assms] by simp
qed

lemma twoPages:
  "pagesFrom (WAFRegionalConn twoPageClient) \<lparr>ListRulesInput.NextMarker = None\<rparr> []
     [rulesPage1, rulesPage2]
     [ListRules \<lparr>ListRulesInput.NextMarker = None\<rparr>,
      ListRules \<lparr>ListRulesInput.NextMarker = Some ''m1''\<rparr>]"
proof -
  let ?conn = "WAFRegionalConn twoPageClient"
  let ?input = "\<lparr>ListRulesInput.NextMarker = None\<rparr>"
  let ?input' = "?input\<lparr>ListRulesInput.NextMarker := Some ''m1''\<rparr>"
  have r1: "onListRules ?conn [] ?input = Inr rulesPage1"
    and r2: "onListRules ?conn ([] @ [ListRules ?input]) ?input' = Inr rulesPage2"
    by (simp_all add: twoPageClient_def)
  have m1: "ListRulesOutput.NextMarker rulesPage1 = Some ''m1''"
    and m2: "ListRulesOutput.NextMarker rulesPage2 = None"
    by (simp_all add: rulesPage1_def rulesPage2_def)
  have "pagesFrom ?conn ?input [] [rulesPage1, rulesPage2]
          (([] @ [ListRules ?input]) @ [ListRules ?input'])"
    by (rule nextPage [OF r1 m1 lastPage [OF r2 m2]])
  then show ?thesis by simp
qed

lemma matchingRules_bar:
  "matchingRules (name (ruleQuery ''bar'')) [rulesPage1, rulesPage2]
     = [\<lparr>RuleSummary.Name = Some ''bar'', RuleId = Some ''rule-2''\<rparr>]"
  by (simp add: matchingRules_def rulesPage1_def rulesPage2_def StringValue_def ruleQuery_def)

lemma matchingRules_foo:
  "matchingRules (name (ruleQuery ''foo'')) [rulesPage1, rulesPage2]
     = [\<lparr>RuleSummary.Name = Some ''foo'', RuleId = Some ''rule-1''\<rparr>,
        \<lparr>RuleSummary.Name = Some ''foo'', RuleId = Some ''rule-3''\<rparr>]"
  by (simp add: matchingRules_def rulesPage1_def rulesPage2_def StringValue_def ruleQuery_def)

text \<open>On the two example pages the query for \<open>bar\<close> finds the one rule of that name.\<close>

theorem C1_waf_rule_lookup_witness:
  "dataSourceAwsWafRegionalRuleRead (ruleQuery ''bar'') twoPageClient []
     = Some (None, (ruleQuery ''bar'')\<lparr>Id := ''rule-2''\<rparr>,
             [ListRules \<lparr>ListRulesInput.NextMarker = None\<rparr>,
              ListRules \<lparr>ListRulesInput.NextMarker = Some ''m1''\<rparr>])"
  using C1_waf_rule_lookup [OF twoPages, of "ruleQuery ''bar''"] unfolding matchingRules_bar
  by (simp add: StringValue_def)

text \<open>The spec's example: two rules are named \<open>foo\<close>, and the query for \<open>foo\<close> fails
  rather than picking one of them.\<close>

lemma waf_rule_lookup_ambiguous:
  "dataSourceAwsWafRegionalRuleRead (ruleQuery ''foo'') twoPageClient []
     = Some (Some (ErrorString ''multiple WAF Rules found for name: foo''), ruleQuery ''foo'',
             [ListRules \<lparr>ListRulesInput.NextMarker = None\<rparr>,
              ListRules \<lparr>ListRulesInput.NextMarker = Some ''m1''\<rparr>])"
proof -
  have loop: "listRulesLoop (WAFRegionalConn twoPageClient) ''foo''
                \<lparr>ListRulesInput.NextMarker = None\<rparr> [] []
              = Some (Inr [\<lparr>RuleSummary.Name = Some ''foo'', RuleId = Some ''rule-1''\<rparr>,
                           \<lparr>RuleSummary.Name = Some ''foo'', RuleId = Some ''rule-3''\<rparr>],
                      [ListRules \<lparr>ListRulesInput.NextMarker = None\<rparr>,
                       ListRules \<lparr>ListRulesInput.NextMarker = Some ''m1''\<rparr>])"
    using listRulesLoop_pages [OF twoPages, of "''foo''" "[]"] matchingRules_foo
    by (simp add: ruleQuery_def)
  have nm: "name (ruleQuery ''foo'') = ''foo''" by (simp add: ruleQuery_def)
  show ?thesis
    unfolding dataSourceAwsWafRegionalRuleRead_def nm Let_def loop by simp
qed

section \<open>Verification: Delete and an object that is already gone\<close>

text \<open>With the empty message, \<open>ErrMessageContains\<close> is a test of the error code.\<close>

lemma ErrMessageContains_empty:
  "ErrMessageContains err code [] = ErrCodeEquals err code"
  by (simp add: ErrMessageContains_def ErrCodeEquals_def Contains_def
           split: option.splits prod.splits)

text \<open>The Delete of the Access Analyzer analyzer and of the Redshift snapshot schedule
  return success when the delete call reports the object as not found.\<close>

lemma accessanalyzer_delete_already_gone:
  assumes "ErrCodeEquals (onDeleteAnalyzer (AccessAnalyzerConn meta) tr
              \<lparr>DeleteAnalyzerInput.AnalyzerName = Id d,
               DeleteAnalyzerInput.ClientToken = UniqueId meta tr\<rparr>)
            ErrCodeResourceNotFoundException"
  shows "fst (resourceAwsAccessAnalyzerAnalyzerDelete d meta tr) = None"
  using assms
  by (simp add: resourceAwsAccessAnalyzerAnalyzerDelete_def conn_DeleteAnalyzer_def
        ErrMessageContains_empty)

lemma redshift_delete_already_gone:
  assumes "(if force_destroy d
            then resourceAwsRedshiftSnapshotScheduleDeleteAllAssociatedClusters
                   (RedshiftConn meta) (Id d) tr
            else (None, tr)) = (None, tr1)"
    and "ErrCodeEquals (onDeleteSnapshotSchedule (RedshiftConn meta) tr1
              \<lparr>DeleteSnapshotScheduleInput.ScheduleIdentifier = Id d\<rparr>)
            ErrCodeSnapshotScheduleNotFoundFault"
  shows "fst (resourceAwsRedshiftSnapshotScheduleDelete d meta tr) = None"
  using assms(2)
  by (simp add: resourceAwsRedshiftSnapshotScheduleDelete_def assms(1)
        conn_DeleteSnapshotSchedule_def ErrMessageContains_empty del: split_paired_All)

text \<open>
  Claim C2. The Delete of the EC2 traffic mirror filter has no case for the service's
  not-found code: whatever error the delete call returns, the code
  \<open>InvalidTrafficMirrorFilterId.NotFound\<close> included, Delete returns an error that wraps
  it, and not success as the Delete of the other two resources does.
\<close>

theorem C2_ec2_delete_returns_every_error:
  assumes "onDeleteTrafficMirrorFilter (EC2Conn meta) tr
             \<lparr>DeleteTrafficMirrorFilterInput.TrafficMirrorFilterId = Id d\<rparr> = Some e"
  shows "resourceAwsEc2TrafficMirrorFilterDelete d meta tr =
           (Some (ErrorString (''Error deleting traffic mirror filter '' @ Id d @ '': '' @ Error e)),
            d,
            tr @ [DeleteTrafficMirrorFilter
                    \<lparr>DeleteTrafficMirrorFilterInput.TrafficMirrorFilterId = Id d\<rparr>])"
  using assms
  by (simp add: resourceAwsEc2TrafficMirrorFilterDelete_def conn_DeleteTrafficMirrorFilter_def)

text \<open>The filter is already gone, and Delete fails.\<close>

theorem C2_ec2_delete_returns_every_error_witness:
  "ErrCodeEquals (Some filterNotFound) ''InvalidTrafficMirrorFilterId.NotFound''
   \<and> resourceAwsEc2TrafficMirrorFilterDelete filterData goneFilterClient [] =
       (Some (ErrorString (''Error deleting traffic mirror filter tmf-0123: ''
                @ ''InvalidTrafficMirrorFilterId.NotFound: The traffic mirror filter does not exist'')),
        filterData,
        [DeleteTrafficMirrorFilter
           \<lparr>DeleteTrafficMirrorFilterInput.TrafficMirrorFilterId = ''tmf-0123''\<rparr>])"
proof -
  have "onDeleteTrafficMirrorFilter (EC2Conn goneFilterClient) []
          \<lparr>DeleteTrafficMirrorFilterInput.TrafficMirrorFilterId = Id filterData\<rparr>
        = Some filterNotFound"
    by (simp add: goneFilterClient_def)
  from C2_ec2_delete_returns_every_error [OF this] show ?thesis
    by (simp add: filterData_def filterNotFound_def ErrCodeEquals_def)
qed

section \<open>Verification: Read and an object that is not found\<close>

text \<open>The Read of the Access Analyzer analyzer clears the ID and returns success when the
  analyzer is not found, unless the resource has just been created: then every error of
  the get call, not-found included, is returned.\<close>

lemma accessanalyzer_read_not_found_clears_state:
  assumes "\<not> IsNewResource d"
    and "ErrCodeEquals (errOf (onGetAnalyzer (AccessAnalyzerConn meta) tr
                                 \<lparr>GetAnalyzerInput.AnalyzerName = Id d\<rparr>))
           ErrCodeResourceNotFoundException"
  shows "resourceAwsAccessAnalyzerAnalyzerRead d meta tr =
           (None, d\<lparr>Id := []\<rparr>, tr @ [GetAnalyzer \<lparr>GetAnalyzerInput.AnalyzerName = Id d\<rparr>])"
  using assms
  by (simp add: resourceAwsAccessAnalyzerAnalyzerRead_def conn_GetAnalyzer_def SetId_def)

lemma accessanalyzer_read_not_found_after_create:
  assumes "IsNewResource d"
    and "onGetAnalyzer (AccessAnalyzerConn meta) tr \<lparr>GetAnalyzerInput.AnalyzerName = Id d\<rparr>
           = Inl e"
  shows "resourceAwsAccessAnalyzerAnalyzerRead d meta tr =
           (Some (ErrorString (''error getting Access Analyzer Analyzer ('' @ Id d @ ''): ''
                               @ Error e)),
            d, tr @ [GetAnalyzer \<lparr>GetAnalyzerInput.AnalyzerName = Id d\<rparr>])"
  using assms
  by (simp add: resourceAwsAccessAnalyzerAnalyzerRead_def conn_GetAnalyzer_def)

text \<open>
  Claim C3. The Read of the EC2 traffic mirror filter does not ask whether the resource
  has just been created: when the describe call reports the filter as not found, Read
  clears the ID and returns success for every resource data, also in the first Read
  after Create, where the Read of the Access Analyzer analyzer returns an error.
\<close>

theorem C3_ec2_read_not_found_ignores_new_resource:
  assumes "ErrCodeEquals (errOf (onDescribeTrafficMirrorFilters (EC2Conn meta) tr
                                   \<lparr>TrafficMirrorFilterIds = [Id d]\<rparr>))
             ''InvalidTrafficMirrorFilterId.NotFound''"
  shows "resourceAwsEc2TrafficMirrorFilterRead d meta tr =
           (None, d\<lparr>Id := []\<rparr>,
            tr @ [DescribeTrafficMirrorFilters \<lparr>TrafficMirrorFilterIds = [Id d]\<rparr>])"
  using assms
  by (simp add: resourceAwsEc2TrafficMirrorFilterRead_def conn_DescribeTrafficMirrorFilters_def
        ErrMessageContains_empty SetId_def)

text \<open>A filter that has just been created and is not found: Read returns success.\<close>

theorem C3_ec2_read_not_found_ignores_new_resource_witness:
  "IsNewResource (filterData\<lparr>IsNewResource := True\<rparr>)
   \<and> resourceAwsEc2TrafficMirrorFilterRead (filterData\<lparr>IsNewResource := True\<rparr>)
         goneFilterClient [] =
       (None, filterData\<lparr>IsNewResource := True, Id := []\<rparr>,
        [DescribeTrafficMirrorFilters \<lparr>TrafficMirrorFilterIds = [''tmf-0123'']\<rparr>])"
proof -
  have "ErrCodeEquals (errOf (onDescribeTrafficMirrorFilters (EC2Conn goneFilterClient) []
                                \<lparr>TrafficMirrorFilterIds = [Id (filterData\<lparr>IsNewResource := True\<rparr>)]\<rparr>))
          ''InvalidTrafficMirrorFilterId.NotFound''"
    by (simp add: goneFilterClient_def errOf_def ErrCodeEquals_def filterNotFound_def)
  from C3_ec2_read_not_found_ignores_new_resource [OF this] show ?thesis
    by (simp add: filterData_def)
qed

section \<open>Verification: the Redshift snapshot schedule and a describe result that is not one
  schedule\<close>

text \<open>
  Claim C9. When the describe call succeeds with a list of schedules whose length is not
  one (no schedule, or two or more), the Read of the Redshift snapshot schedule clears
  the resource ID and returns success, whatever the resource data, so also in the first
  Read after Create; and the force-destroy helper returns success after the describe
  call alone, with no disassociate call and no wait.
\<close>

theorem C9_redshift_not_exactly_one_schedule:
  assumes "onDescribeSnapshotSchedules (RedshiftConn meta) tr
             \<lparr>DescribeSnapshotSchedulesInput.ScheduleIdentifier = Id d\<rparr> = Inr resp"
    and "length (SnapshotSchedules resp) \<noteq> 1"
  shows "resourceAwsRedshiftSnapshotScheduleRead d meta tr =
           (None, d\<lparr>Id := []\<rparr>,
            tr @ [DescribeSnapshotSchedules
                    \<lparr>DescribeSnapshotSchedulesInput.ScheduleIdentifier = Id d\<rparr>])
         \<and> resourceAwsRedshiftSnapshotScheduleDeleteAllAssociatedClusters
             (RedshiftConn meta) (Id d) tr =
           (None, tr @ [DescribeSnapshotSchedules
                          \<lparr>DescribeSnapshotSchedulesInput.ScheduleIdentifier = Id d\<rparr>])"
  using assms
  by (simp add: resourceAwsRedshiftSnapshotScheduleRead_def
        resourceAwsRedshiftSnapshotScheduleDeleteAllAssociatedClusters_def
        conn_DescribeSnapshotSchedules_def SetId_def errOf_def ErrMessageContains_def)

text \<open>Two schedules are described for a schedule that has just been created.\<close>

theorem C9_redshift_not_exactly_one_schedule_witness:
  "IsNewResource (scheduleData\<lparr>IsNewResource := True\<rparr>)
   \<and> resourceAwsRedshiftSnapshotScheduleRead (scheduleData\<lparr>IsNewResource := True\<rparr>)
       (describingClient [describedSchedule [''c1''], describedSchedule [''c2'']]) [] =
       (None, scheduleData\<lparr>IsNewResource := True, Id := []\<rparr>,
        [DescribeSnapshotSchedules
           \<lparr>DescribeSnapshotSchedulesInput.ScheduleIdentifier = ''nightly''\<rparr>])
   \<and> resourceAwsRedshiftSnapshotScheduleDeleteAllAssociatedClusters
       (RedshiftConn (describingClient [describedSchedule [''c1''], describedSchedule [''c2'']]))
       ''nightly'' [] =
       (None, [DescribeSnapshotSchedules
                 \<lparr>DescribeSnapshotSchedulesInput.ScheduleIdentifier = ''nightly''\<rparr>])"
proof -
  let ?d = "scheduleData\<lparr>IsNewResource := True\<rparr>"
  let ?meta = "describingClient [describedSchedule [''c1''], describedSchedule [''c2'']]"
  have r: "onDescribeSnapshotSchedules (RedshiftConn ?meta) []
             \<lparr>DescribeSnapshotSchedulesInput.ScheduleIdentifier = Id ?d\<rparr>
           = Inr \<lparr>SnapshotSchedules = [describedSchedule [''c1''], describedSchedule [''c2'']]\<rparr>"
    by (simp add: describingClient_def)
  have l: "length (SnapshotSchedules
             \<lparr>SnapshotSchedules = [describedSchedule [''c1''], describedSchedule [''c2'']]\<rparr>) \<noteq> 1"
    by simp
  have i: "Id ?d = ''nightly''" by (simp add: scheduleData_def)
  show ?thesis
    using C9_redshift_not_exactly_one_schedule [OF r l] unfolding i
    by (simp add: scheduleData_def)
qed

text \<open>No schedule is described for a schedule that has just been created.\<close>

lemma redshift_read_no_schedule:
  "resourceAwsRedshiftSnapshotScheduleRead (scheduleData\<lparr>IsNewResource := True\<rparr>)
     quietClient [] =
     (None, scheduleData\<lparr>IsNewResource := True, Id := []\<rparr>,
      [DescribeSnapshotSchedules
         \<lparr>DescribeSnapshotSchedulesInput.ScheduleIdentifier = ''nightly''\<rparr>])"
  by (simp add: resourceAwsRedshiftSnapshotScheduleRead_def quietClient_def
        conn_DescribeSnapshotSchedules_def SetId_def scheduleData_def)

section \<open>Verification: the retry loop of the Access Analyzer Create\<close>

text \<open>One attempt: the organization error is answered with a retryable error, every other
  answer ends the retries.\<close>

lemma createAnalyzerAttempt_retryable:
  "organizationNotReady (onCreateAnalyzer conn tr input) \<Longrightarrow>
   createAnalyzerAttempt conn input tr =
     (Some (RetryableError (onCreateAnalyzer conn tr input)), tr @ [CreateAnalyzer input])"
  by (simp add: createAnalyzerAttempt_def conn_CreateAnalyzer_def organizationNotReady_def)

lemma createAnalyzerAttempt_final:
  "\<not> organizationNotReady (onCreateAnalyzer conn tr input) \<Longrightarrow>
   createAnalyzerAttempt conn input tr =
     (case onCreateAnalyzer conn tr input of
        None \<Rightarrow> None
      | Some e \<Rightarrow> Some (NonRetryableError (Some e)),
      tr @ [CreateAnalyzer input])"
  by (simp add: createAnalyzerAttempt_def conn_CreateAnalyzer_def organizationNotReady_def
           split: option.splits)

text \<open>The retry loop, by the answers of the service to the successive create calls: an
  answer that is not the organization error ends the loop at once with that answer; the
  organization error at every attempt ends it with the answer to the last attempt.\<close>

lemma retryLoop_final:
  "\<not> organizationNotReady (onCreateAnalyzer conn tr input) \<Longrightarrow>
   retryLoop n (createAnalyzerAttempt conn input) tr =
     (onCreateAnalyzer conn tr input, tr @ [CreateAnalyzer input])"
  by (cases n; cases "onCreateAnalyzer conn tr input")
     (simp_all add: createAnalyzerAttempt_final NonRetryableError_def)

lemma retryLoop_exhausted:
  "(\<forall>j\<le>n. organizationNotReady
             (onCreateAnalyzer conn (tr @ replicate j (CreateAnalyzer input)) input)) \<Longrightarrow>
   retryLoop n (createAnalyzerAttempt conn input) tr =
     (onCreateAnalyzer conn (tr @ replicate n (CreateAnalyzer input)) input,
      tr @ replicate (Suc n) (CreateAnalyzer input))"
proof (induction n arbitrary: tr)
  case 0
  then have "organizationNotReady (onCreateAnalyzer conn tr input)" by simp
  then show ?case
    by (simp add: createAnalyzerAttempt_retryable RetryableError_def)
next
  case (Suc n)
  from Suc.prems have first: "organizationNotReady (onCreateAnalyzer conn tr input)"
    by (metis append_Nil2 le0 replicate_0)
  have later: "\<forall>j\<le>n. organizationNotReady
                 (onCreateAnalyzer conn ((tr @ [CreateAnalyzer input])
                                          @ replicate j (CreateAnalyzer input)) input)"
  proof (intro allI impI)
    fix j assume "j \<le> n"
    then have "Suc j \<le> Suc n" by simp
    with Suc.prems
    have "organizationNotReady
            (onCreateAnalyzer conn (tr @ replicate (Suc j) (CreateAnalyzer input)) input)"
      by blast
    then show "organizationNotReady
                 (onCreateAnalyzer conn ((tr @ [CreateAnalyzer input])
                                          @ replicate j (CreateAnalyzer input)) input)"
      by simp
  qed
  show ?case
    using Suc.IH [OF later] first
    by (simp add: createAnalyzerAttempt_retryable RetryableError_def)
qed

lemma retryLoop_stops:
  "k \<le> n \<Longrightarrow>
   (\<forall>j<k. organizationNotReady
             (onCreateAnalyzer conn (tr @ replicate j (CreateAnalyzer input)) input)) \<Longrightarrow>
   \<not> organizationNotReady
       (onCreateAnalyzer conn (tr @ replicate k (CreateAnalyzer input)) input) \<Longrightarrow>
   retryLoop n (createAnalyzerAttempt conn input) tr =
     (onCreateAnalyzer conn (tr @ replicate k (CreateAnalyzer input)) input,
      tr @ replicate (Suc k) (CreateAnalyzer input))"
proof (induction n arbitrary: tr k)
  case 0
  then show ?case
    by (simp add: retryLoop_final del: retryLoop.simps)
next
  case (Suc n)
  show ?case
  proof (cases k)
    case 0
    with Suc.prems show ?thesis
      by (simp add: retryLoop_final del: retryLoop.simps)
  next
    case (Suc k')
    with Suc.prems have first: "organizationNotReady (onCreateAnalyzer conn tr input)"
      by (metis append_Nil2 replicate_0 zero_less_Suc)
    have le: "k' \<le> n" using Suc Suc.prems by simp
    have before: "\<forall>j<k'. organizationNotReady
                   (onCreateAnalyzer conn ((tr @ [CreateAnalyzer input])
                                            @ replicate j (CreateAnalyzer input)) input)"
    proof (intro allI impI)
      fix j assume "j < k'"
      then have "Suc j < k" using Suc by simp
      with Suc.prems
      have "organizationNotReady
              (onCreateAnalyzer conn (tr @ replicate (Suc j) (CreateAnalyzer input)) input)"
        by blast
      then show "organizationNotReady
                   (onCreateAnalyzer conn ((tr @ [CreateAnalyzer input])
                                            @ replicate j (CreateAnalyzer input)) input)"
        by simp
    qed
    have last: "\<not> organizationNotReady
                   (onCreateAnalyzer conn ((tr @ [CreateAnalyzer input])
                                            @ replicate k' (CreateAnalyzer input)) input)"
      using Suc.prems(3) Suc by simp
    show ?thesis
      using Suc.IH [OF le before last] first Suc
      by (simp add: createAnalyzerAttempt_retryable RetryableError_def)
  qed
qed


text \<open>Read issues the get call and no other.\<close>

lemma accessanalyzer_read_calls:
  "snd (snd (resourceAwsAccessAnalyzerAnalyzerRead d meta tr)) =
     tr @ [GetAnalyzer \<lparr>GetAnalyzerInput.AnalyzerName = Id d\<rparr>]"
  by (simp add: resourceAwsAccessAnalyzerAnalyzerRead_def conn_GetAnalyzer_def Let_def
           split: prod.splits sum.splits option.splits)

text \<open>Create, when the retries end before the timeout, and when the timeout ends them.\<close>

lemma accessanalyzer_create_stops:
  assumes "k \<le> RetriesWithin meta accessAnalyzerOrganizationCreationTimeout"
    and "\<forall>j<k. organizationNotReady
                  (onCreateAnalyzer (AccessAnalyzerConn meta)
                     (tr @ replicate j (CreateAnalyzer (createAnalyzerInput d meta tr)))
                     (createAnalyzerInput d meta tr))"
    and "onCreateAnalyzer (AccessAnalyzerConn meta)
           (tr @ replicate k (CreateAnalyzer (createAnalyzerInput d meta tr)))
           (createAnalyzerInput d meta tr) = r"
    and "\<not> organizationNotReady r" and "r \<noteq> Some TimeoutError"
  shows "resourceAwsAccessAnalyzerAnalyzerCreate d meta tr =
           (case r of
              Some e \<Rightarrow>
                (Some (ErrorString (''error creating Access Analyzer Analyzer ('' @ analyzer_name d
                                    @ ''): '' @ Error e)),
                 d, tr @ replicate (Suc k) (CreateAnalyzer (createAnalyzerInput d meta tr)))
            | None \<Rightarrow>
                resourceAwsAccessAnalyzerAnalyzerRead (SetId (analyzer_name d) d) meta
                  (tr @ replicate (Suc k) (CreateAnalyzer (createAnalyzerInput d meta tr))))"
proof -
  have "Retry meta accessAnalyzerOrganizationCreationTimeout
          (createAnalyzerAttempt (AccessAnalyzerConn meta) (createAnalyzerInput d meta tr)) tr
        = (r, tr @ replicate (Suc k) (CreateAnalyzer (createAnalyzerInput d meta tr)))"
    unfolding Retry_def
    using retryLoop_stops [OF assms(1) assms(2)] assms(3,4) by simp
  then show ?thesis
    using assms(5)
    by (simp add: resourceAwsAccessAnalyzerAnalyzerCreate_def TimedOut_def
          del: replicate.simps split: option.splits)
qed

lemma organizationNotReady_not_timeout: "organizationNotReady (Some e) \<Longrightarrow> e \<noteq> TimeoutError"
  by (auto simp add: organizationNotReady_def ErrMessageContains_def)

lemma accessanalyzer_create_exhausted:
  assumes "\<forall>j\<le>RetriesWithin meta accessAnalyzerOrganizationCreationTimeout.
             organizationNotReady
               (onCreateAnalyzer (AccessAnalyzerConn meta)
                  (tr @ replicate j (CreateAnalyzer (createAnalyzerInput d meta tr)))
                  (createAnalyzerInput d meta tr))"
    and "n = RetriesWithin meta accessAnalyzerOrganizationCreationTimeout"
    and "onCreateAnalyzer (AccessAnalyzerConn meta)
           (tr @ replicate n (CreateAnalyzer (createAnalyzerInput d meta tr)))
           (createAnalyzerInput d meta tr) = Some e"
  shows "resourceAwsAccessAnalyzerAnalyzerCreate d meta tr =
           (Some (ErrorString (''error creating Access Analyzer Analyzer ('' @ analyzer_name d
                               @ ''): '' @ Error e)),
            d, tr @ replicate (Suc n) (CreateAnalyzer (createAnalyzerInput d meta tr)))"
proof -
  have "organizationNotReady (Some e)"
    using assms by (metis order_refl)
  then have ne: "e \<noteq> TimeoutError" by (rule organizationNotReady_not_timeout)
  have "Retry meta accessAnalyzerOrganizationCreationTimeout
          (createAnalyzerAttempt (AccessAnalyzerConn meta) (createAnalyzerInput d meta tr)) tr
        = (Some e, tr @ replicate (Suc n) (CreateAnalyzer (createAnalyzerInput d meta tr)))"
    unfolding Retry_def assms(2)
    using retryLoop_exhausted [OF assms(1)] assms(3) [unfolded assms(2)] by simp
  then show ?thesis
    using ne
    by (simp add: resourceAwsAccessAnalyzerAnalyzerCreate_def TimedOut_def
          del: replicate.simps)
qed

lemma organizationError_retryable: "organizationNotReady (Some organizationError)"
  by (simp add: organizationNotReady_def ErrMessageContains_def organizationError_def
        ErrCodeValidationException_def Contains_def sublist_code)




text \<open>The branch after the retries: the create call outside the loop is issued exactly when
  the retry primitive has ended with its own timeout error, and then its answer decides.
  The loop over the answers of the service ends with that error only when the service
  itself has answered an attempt with it.\<close>

lemma accessanalyzer_create_after_timeout_error:
  assumes "Retry meta accessAnalyzerOrganizationCreationTimeout
             (createAnalyzerAttempt (AccessAnalyzerConn meta) (createAnalyzerInput d meta tr)) tr
           = (Some TimeoutError, tr1)"
  shows "resourceAwsAccessAnalyzerAnalyzerCreate d meta tr =
           (case onCreateAnalyzer (AccessAnalyzerConn meta) tr1 (createAnalyzerInput d meta tr) of
              Some e \<Rightarrow>
                (Some (ErrorString (''error creating Access Analyzer Analyzer ('' @ analyzer_name d
                                    @ ''): '' @ Error e)),
                 d, tr1 @ [CreateAnalyzer (createAnalyzerInput d meta tr)])
            | None \<Rightarrow>
                resourceAwsAccessAnalyzerAnalyzerRead (SetId (analyzer_name d) d) meta
                  (tr1 @ [CreateAnalyzer (createAnalyzerInput d meta tr)]))"
  using assms
  by (simp add: resourceAwsAccessAnalyzerAnalyzerCreate_def TimedOut_def conn_CreateAnalyzer_def
           split: option.splits)

lemma retryLoop_timeout_error_is_an_answer:
  "fst (retryLoop n (createAnalyzerAttempt conn input) tr) = Some TimeoutError \<Longrightarrow>
   \<exists>tr'. onCreateAnalyzer conn tr' input = Some TimeoutError"
proof (induction n arbitrary: tr)
  case 0
  show ?case
  proof (cases "organizationNotReady (onCreateAnalyzer conn tr input)")
    case True
    with 0 show ?thesis
      by (auto simp add: createAnalyzerAttempt_retryable RetryableError_def)
  next
    case False
    with 0 show ?thesis
      by (auto simp add: retryLoop_final simp del: retryLoop.simps)
  qed
next
  case (Suc n)
  show ?case
  proof (cases "organizationNotReady (onCreateAnalyzer conn tr input)")
    case True
    with Suc.prems
    have "fst (retryLoop n (createAnalyzerAttempt conn input) (tr @ [CreateAnalyzer input]))
          = Some TimeoutError"
      by (simp add: createAnalyzerAttempt_retryable RetryableError_def)
    then show ?thesis by (rule Suc.IH)
  next
    case False
    with Suc.prems show ?thesis
      by (auto simp add: retryLoop_final simp del: retryLoop.simps)
  qed
qed

text \<open>
  Claim C10, as amended. When the service answers every attempt of the retry loop with
  the organization error, so that the loop ends at its 10-minute timeout, the retry
  primitive ends with the answer \<open>e\<close> to the last attempt, which is not a timeout error:
  Create issues no further create call, its create calls are the attempts of the loop,
  and it returns \<open>e\<close>, the last retryable error, wrapped into its creation error, leaving
  the resource data unchanged.
\<close>

theorem C10_create_after_retry_exhausted:
  assumes "n = RetriesWithin meta (10 * Minute)"
    and "\<forall>j\<le>n. organizationNotReady
                  (onCreateAnalyzer (AccessAnalyzerConn meta)
                     (tr @ replicate j (CreateAnalyzer (createAnalyzerInput d meta tr)))
                     (createAnalyzerInput d meta tr))"
    and "onCreateAnalyzer (AccessAnalyzerConn meta)
           (tr @ replicate n (CreateAnalyzer (createAnalyzerInput d meta tr)))
           (createAnalyzerInput d meta tr) = Some e"
  shows "\<not> TimedOut (Some e)
         \<and> resourceAwsAccessAnalyzerAnalyzerCreate d meta tr =
             (Some (ErrorString (''error creating Access Analyzer Analyzer ('' @ analyzer_name d
                                 @ ''): '' @ Error e)),
              d, tr @ replicate (Suc n) (CreateAnalyzer (createAnalyzerInput d meta tr)))"
proof -
  have n: "n = RetriesWithin meta accessAnalyzerOrganizationCreationTimeout"
    using assms(1) by (simp add: accessAnalyzerOrganizationCreationTimeout_def)
  have all: "\<forall>j\<le>RetriesWithin meta accessAnalyzerOrganizationCreationTimeout.
               organizationNotReady
                 (onCreateAnalyzer (AccessAnalyzerConn meta)
                    (tr @ replicate j (CreateAnalyzer (createAnalyzerInput d meta tr)))
                    (createAnalyzerInput d meta tr))"
    using assms(2) n by simp
  have "organizationNotReady (Some e)"
    using assms(2,3) by (metis order_refl)
  then have "e \<noteq> TimeoutError" by (rule organizationNotReady_not_timeout)
  then have "\<not> TimedOut (Some e)" by (simp add: TimedOut_def)
  then show ?thesis
    using accessanalyzer_create_exhausted [OF all n assms(3)] by simp
qed

text \<open>The claim as stated, that exactly one further create call is made outside the loop
  and that the last retryable error is not what Create returns, fails: the three attempts
  that fit into the timeout are answered with the organization error, and a fourth create
  call would be answered with success. Create issues the three calls of the loop and no
  fourth, and returns the organization error of the third attempt.\<close>

theorem C10_no_create_call_after_the_loop:
  "RetriesWithin (organizationClient 3 None (Inr None)) (10 * Minute) = 2
   \<and> onCreateAnalyzer (AccessAnalyzerConn (organizationClient 3 None (Inr None)))
       (replicate 3 (CreateAnalyzer
          (createAnalyzerInput newAnalyzerData (organizationClient 3 None (Inr None)) [])))
       (createAnalyzerInput newAnalyzerData (organizationClient 3 None (Inr None)) [])
       = None
   \<and> resourceAwsAccessAnalyzerAnalyzerCreate newAnalyzerData
       (organizationClient 3 None (Inr None)) [] =
       (Some (ErrorString (''error creating Access Analyzer Analyzer (example): ''
                @ ''ValidationException: You must create an organization before creating an organization analyzer.'')),
        newAnalyzerData,
        replicate 3
          (CreateAnalyzer
             (createAnalyzerInput newAnalyzerData (organizationClient 3 None (Inr None)) [])))"
proof -
  let ?meta = "organizationClient 3 None (Inr None)"
  let ?input = "createAnalyzerInput newAnalyzerData ?meta []"
  have n: "2 = RetriesWithin ?meta accessAnalyzerOrganizationCreationTimeout"
    by (simp add: organizationClient_def quietClient_def)
  have n': "RetriesWithin ?meta (10 * Minute) = 2"
    by (simp add: organizationClient_def quietClient_def)
  have all: "\<forall>j\<le>RetriesWithin ?meta accessAnalyzerOrganizationCreationTimeout.
               organizationNotReady
                 (onCreateAnalyzer (AccessAnalyzerConn ?meta)
                    ([] @ replicate j (CreateAnalyzer ?input)) ?input)"
    using organizationError_retryable n [symmetric] by (simp add: organizationClient_def)
  have last: "onCreateAnalyzer (AccessAnalyzerConn ?meta)
                ([] @ replicate 2 (CreateAnalyzer ?input)) ?input = Some organizationError"
    by (simp add: organizationClient_def)
  have fourth: "onCreateAnalyzer (AccessAnalyzerConn ?meta)
                  (replicate 3 (CreateAnalyzer ?input)) ?input = None"
    by (simp add: organizationClient_def)
  have three: "Suc 2 = 3" by simp
  have "resourceAwsAccessAnalyzerAnalyzerCreate newAnalyzerData ?meta [] =
          (Some (ErrorString (''error creating Access Analyzer Analyzer (''
                              @ analyzer_name newAnalyzerData @ ''): ''
                              @ Error organizationError)),
           newAnalyzerData, [] @ replicate 3 (CreateAnalyzer ?input))"
    using accessanalyzer_create_exhausted [OF all n last] unfolding three .
  then show ?thesis
    using n' fourth
    by (simp add: newAnalyzerData_def organizationError_def del: replicate.simps)
qed

text \<open>The organization error at all three attempts, and at every later create call:
  Create returns the error of the third attempt after three create calls.\<close>

theorem C10_create_after_retry_exhausted_witness:
  "resourceAwsAccessAnalyzerAnalyzerCreate newAnalyzerData
     (organizationClient 4 None (Inr None)) [] =
     (Some (ErrorString (''error creating Access Analyzer Analyzer (example): ''
              @ ''ValidationException: You must create an organization before creating an organization analyzer.'')),
      newAnalyzerData,
      replicate 3
        (CreateAnalyzer
           (createAnalyzerInput newAnalyzerData (organizationClient 4 None (Inr None)) [])))"
proof -
  let ?meta = "organizationClient 4 None (Inr None)"
  let ?input = "createAnalyzerInput newAnalyzerData ?meta []"
  have n: "2 = RetriesWithin ?meta (10 * Minute)"
    by (simp add: organizationClient_def quietClient_def)
  have all: "\<forall>j\<le>2. organizationNotReady
               (onCreateAnalyzer (AccessAnalyzerConn ?meta)
                  ([] @ replicate j (CreateAnalyzer ?input)) ?input)"
    using organizationError_retryable by (simp add: organizationClient_def)
  have last: "onCreateAnalyzer (AccessAnalyzerConn ?meta)
                ([] @ replicate 2 (CreateAnalyzer ?input)) ?input
              = Some organizationError"
    by (simp add: organizationClient_def)
  have three: "Suc 2 = 3" by simp
  show ?thesis
    using C10_create_after_retry_exhausted [OF n all last, THEN conjunct2]
    unfolding three
    by (simp add: newAnalyzerData_def organizationError_def del: replicate.simps)
qed

section \<open>Verification: the Update of the EC2 traffic mirror filter\<close>

text \<open>Read issues the describe call and no other.\<close>

lemma ec2_read_calls:
  "snd (snd (resourceAwsEc2TrafficMirrorFilterRead d meta tr)) =
     tr @ [DescribeTrafficMirrorFilters \<lparr>TrafficMirrorFilterIds = [Id d]\<rparr>]"
  by (simp add: resourceAwsEc2TrafficMirrorFilterRead_def conn_DescribeTrafficMirrorFilters_def
        Let_def split: prod.splits sum.splits option.splits)

text \<open>The modify request asks to add the services that are new and to remove those that
  are no longer there; a side without services is left out.\<close>

lemma modifyNetworkServicesInput_eq:
  "modifyNetworkServicesInput d =
     \<lparr>ModifyTrafficMirrorFilterNetworkServicesInput.TrafficMirrorFilterId = Id d,
      AddNetworkServices =
        (if network_services d - network_services_old d = {} then None
         else Some (network_services d - network_services_old d)),
      RemoveNetworkServices =
        (if network_services_old d - network_services d = {} then None
         else Some (network_services_old d - network_services d))\<rparr>"
  by (simp add: modifyNetworkServicesInput_def)

text \<open>
  Claim C6. The Update of the EC2 traffic mirror filter issues the modify call for the
  network services only when \<open>network_services\<close> has changed, and the tag update only
  when \<open>tags_all\<close> has changed, in this order; when the calls it issues succeed, it then
  delegates to Read, which issues the describe call. The one modify call for the network
  services asks to add exactly the set difference of the new and the old services and to
  remove exactly the difference of the old and the new; a difference that is empty is
  left out of the request. With no change, the describe call of Read is the only call.
\<close>

theorem C6_update_modifies_what_changed:
  assumes "modifyCalls =
             (if network_services_old d \<noteq> network_services d
              then [ModifyTrafficMirrorFilterNetworkServices (modifyNetworkServicesInput d)]
              else [])"
    and "tagCalls =
           (if tags_all_old d \<noteq> tags_all d
            then [Ec2UpdateTags (Id d) (tags_all_old d) (tags_all d)] else [])"
    and "modifyCalls \<noteq> [] \<Longrightarrow>
           onModifyTrafficMirrorFilterNetworkServices (EC2Conn meta) tr
             (modifyNetworkServicesInput d) = None"
    and "tagCalls \<noteq> [] \<Longrightarrow>
           onEc2UpdateTags (EC2Conn meta) (tr @ modifyCalls) (Id d) (tags_all_old d) (tags_all d)
             = None"
  shows "resourceAwsEc2TrafficMirrorFilterUpdate d meta tr =
           resourceAwsEc2TrafficMirrorFilterRead d meta (tr @ modifyCalls @ tagCalls)
         \<and> snd (snd (resourceAwsEc2TrafficMirrorFilterUpdate d meta tr)) =
             tr @ modifyCalls @ tagCalls
             @ [DescribeTrafficMirrorFilters \<lparr>TrafficMirrorFilterIds = [Id d]\<rparr>]
         \<and> modifyNetworkServicesInput d =
             \<lparr>ModifyTrafficMirrorFilterNetworkServicesInput.TrafficMirrorFilterId = Id d,
              AddNetworkServices =
                (if network_services d - network_services_old d = {} then None
                 else Some (network_services d - network_services_old d)),
              RemoveNetworkServices =
                (if network_services_old d - network_services d = {} then None
                 else Some (network_services_old d - network_services d))\<rparr>"
proof -
  have upd: "resourceAwsEc2TrafficMirrorFilterUpdate d meta tr =
               resourceAwsEc2TrafficMirrorFilterRead d meta (tr @ modifyCalls @ tagCalls)"
    using assms
    by (simp add: resourceAwsEc2TrafficMirrorFilterUpdate_def
          conn_ModifyTrafficMirrorFilterNetworkServices_def keyvaluetags_Ec2UpdateTags_def
          split: if_splits)
  show ?thesis
    unfolding upd using modifyNetworkServicesInput_eq [of d]
    by (simp add: ec2_read_calls)
qed



text \<open>The service \<open>amazon-dns\<close> is dropped from the filter: one modify call that removes it,
  then the describe call. Nothing has changed: the describe call alone.\<close>

theorem C6_update_modifies_what_changed_witness:
  "snd (snd (resourceAwsEc2TrafficMirrorFilterUpdate
               (filterData\<lparr>network_services_old := {''amazon-dns''}\<rparr>) quietClient [])) =
     [ModifyTrafficMirrorFilterNetworkServices
        \<lparr>ModifyTrafficMirrorFilterNetworkServicesInput.TrafficMirrorFilterId = ''tmf-0123'',
         AddNetworkServices = None,
         RemoveNetworkServices = Some {''amazon-dns''}\<rparr>,
      DescribeTrafficMirrorFilters \<lparr>TrafficMirrorFilterIds = [''tmf-0123'']\<rparr>]
   \<and> snd (snd (resourceAwsEc2TrafficMirrorFilterUpdate filterData quietClient [])) =
     [DescribeTrafficMirrorFilters \<lparr>TrafficMirrorFilterIds = [''tmf-0123'']\<rparr>]"
proof
  let ?d = "filterData\<lparr>network_services_old := {''amazon-dns''}\<rparr>"
  have m: "[ModifyTrafficMirrorFilterNetworkServices (modifyNetworkServicesInput ?d)] =
             (if network_services_old ?d \<noteq> network_services ?d
              then [ModifyTrafficMirrorFilterNetworkServices (modifyNetworkServicesInput ?d)]
              else [])"
    by (simp add: filterData_def)
  have t: "[] = (if tags_all_old ?d \<noteq> tags_all ?d
                 then [Ec2UpdateTags (Id ?d) (tags_all_old ?d) (tags_all ?d)] else [])"
    by (simp add: filterData_def)
  have ok: "onModifyTrafficMirrorFilterNetworkServices (EC2Conn quietClient) []
              (modifyNetworkServicesInput ?d) = None"
    by (simp add: quietClient_def)
  have "snd (snd (resourceAwsEc2TrafficMirrorFilterUpdate ?d quietClient [])) =
          [] @ [ModifyTrafficMirrorFilterNetworkServices (modifyNetworkServicesInput ?d)] @ []
          @ [DescribeTrafficMirrorFilters \<lparr>TrafficMirrorFilterIds = [Id ?d]\<rparr>]"
    using C6_update_modifies_what_changed [OF m t ok, THEN conjunct2, THEN conjunct1]
    by simp
  then show "snd (snd (resourceAwsEc2TrafficMirrorFilterUpdate ?d quietClient [])) =
     [ModifyTrafficMirrorFilterNetworkServices
        \<lparr>ModifyTrafficMirrorFilterNetworkServicesInput.TrafficMirrorFilterId = ''tmf-0123'',
         AddNetworkServices = None,
         RemoveNetworkServices = Some {''amazon-dns''}\<rparr>,
      DescribeTrafficMirrorFilters \<lparr>TrafficMirrorFilterIds = [''tmf-0123'']\<rparr>]"
    by (simp add: modifyNetworkServicesInput_eq filterData_def)
next
  have m: "[] = (if network_services_old filterData \<noteq> network_services filterData
                 then [ModifyTrafficMirrorFilterNetworkServices
                         (modifyNetworkServicesInput filterData)]
                 else [])"
    by (simp add: filterData_def)
  have t: "[] = (if tags_all_old filterData \<noteq> tags_all filterData
                 then [Ec2UpdateTags (Id filterData) (tags_all_old filterData)
                         (tags_all filterData)] else [])"
    by (simp add: filterData_def)
  have "snd (snd (resourceAwsEc2TrafficMirrorFilterUpdate filterData quietClient [])) =
          [] @ [] @ [] @ [DescribeTrafficMirrorFilters \<lparr>TrafficMirrorFilterIds = [Id filterData]\<rparr>]"
    using C6_update_modifies_what_changed [OF m t, THEN conjunct2, THEN conjunct1]
    by simp
  then show "snd (snd (resourceAwsEc2TrafficMirrorFilterUpdate filterData quietClient [])) =
     [DescribeTrafficMirrorFilters \<lparr>TrafficMirrorFilterIds = [''tmf-0123'']\<rparr>]"
    by (simp add: filterData_def)
qed

section \<open>Verification: the tags that a Create sends\<close>

text \<open>The tags that reach a request are the merged tags without the AWS-reserved keys.\<close>

lemma IgnoreAws_MergeTags: "IgnoreAws (MergeTags defaultTags resourceTags) = sentTags defaultTags resourceTags"
  by (rule ext) (simp add: IgnoreAws_def MergeTags_def sentTags_def AwsTagKeyPrefix_def
                   map_add_def split: option.splits)

lemma MergeTags_empty_iff:
  "MergeTags defaultTags resourceTags = Map.empty \<longleftrightarrow>
     defaultTags = Map.empty \<and> resourceTags = Map.empty"
  by (simp add: MergeTags_def)

text \<open>The first call that each Create issues is the create call with the request it has
  built.\<close>

lemma retryLoop_first_call:
  "\<exists>rest. snd (retryLoop n (createAnalyzerAttempt conn input) tr) = tr @ CreateAnalyzer input # rest"
proof (induction n arbitrary: tr)
  case 0
  show ?case
  proof (cases "organizationNotReady (onCreateAnalyzer conn tr input)")
    case True
    then show ?thesis by (simp add: createAnalyzerAttempt_retryable RetryableError_def)
  next
    case False
    then show ?thesis by (simp add: retryLoop_final del: retryLoop.simps)
  qed
next
  case (Suc n)
  show ?case
  proof (cases "organizationNotReady (onCreateAnalyzer conn tr input)")
    case True
    from Suc.IH [of "tr @ [CreateAnalyzer input]"]
    obtain rest where
      "snd (retryLoop n (createAnalyzerAttempt conn input) (tr @ [CreateAnalyzer input]))
         = tr @ CreateAnalyzer input # CreateAnalyzer input # rest"
      by auto
    with True show ?thesis by (simp add: createAnalyzerAttempt_retryable RetryableError_def)
  next
    case False
    then show ?thesis by (simp add: retryLoop_final del: retryLoop.simps)
  qed
qed

lemma accessanalyzer_create_first_call:
  "\<exists>rest. snd (snd (resourceAwsAccessAnalyzerAnalyzerCreate d meta tr)) =
            tr @ CreateAnalyzer (createAnalyzerInput d meta tr) # rest"
proof -
  obtain err tr1 where r: "Retry meta accessAnalyzerOrganizationCreationTimeout
          (createAnalyzerAttempt (AccessAnalyzerConn meta) (createAnalyzerInput d meta tr)) tr
        = (err, tr1)"
    by (cases "Retry meta accessAnalyzerOrganizationCreationTimeout
          (createAnalyzerAttempt (AccessAnalyzerConn meta) (createAnalyzerInput d meta tr)) tr")
  from retryLoop_first_call [of "RetriesWithin meta accessAnalyzerOrganizationCreationTimeout"
      "AccessAnalyzerConn meta" "createAnalyzerInput d meta tr" tr] r
  obtain rest where tr1: "tr1 = tr @ CreateAnalyzer (createAnalyzerInput d meta tr) # rest"
    by (auto simp: Retry_def)
  show ?thesis
    by (simp add: resourceAwsAccessAnalyzerAnalyzerCreate_def r tr1 conn_CreateAnalyzer_def
          accessanalyzer_read_calls Let_def split: option.splits)
qed

lemma redshift_read_calls:
  "snd (snd (resourceAwsRedshiftSnapshotScheduleRead d meta tr)) =
     tr @ [DescribeSnapshotSchedules
             \<lparr>DescribeSnapshotSchedulesInput.ScheduleIdentifier = Id d\<rparr>]"
  by (simp add: resourceAwsRedshiftSnapshotScheduleRead_def conn_DescribeSnapshotSchedules_def
        Let_def split: prod.splits sum.splits option.splits)

lemma redshift_create_first_call:
  "\<exists>rest. snd (snd (resourceAwsRedshiftSnapshotScheduleCreate d meta tr)) =
            tr @ CreateSnapshotSchedule (createSnapshotScheduleInput d meta tr) # rest"
  by (simp add: resourceAwsRedshiftSnapshotScheduleCreate_def conn_CreateSnapshotSchedule_def
        redshift_read_calls Let_def split: sum.splits)

lemma ec2_create_first_call:
  "\<exists>rest. snd (snd (resourceAwsEc2TrafficMirrorFilterCreate d meta tr)) =
            tr @ CreateTrafficMirrorFilter (createTrafficMirrorFilterInput d meta) # rest"
  by (simp add: resourceAwsEc2TrafficMirrorFilterCreate_def conn_CreateTrafficMirrorFilter_def
        conn_ModifyTrafficMirrorFilterNetworkServices_def
        ec2_read_calls Let_def split: sum.splits option.splits)

text \<open>The tags of the three create requests.\<close>

lemma createAnalyzerInput_Tags:
  "CreateAnalyzerInput.Tags (createAnalyzerInput d meta tr) =
     sentTags (DefaultTagsConfig meta) (tags d)"
  by (simp add: createAnalyzerInput_def IgnoreAws_MergeTags)

lemma createSnapshotScheduleInput_Tags:
  "CreateSnapshotScheduleInput.Tags (createSnapshotScheduleInput d meta tr) =
     sentTags (DefaultTagsConfig meta) (tags d)"
  by (simp add: createSnapshotScheduleInput_def IgnoreAws_MergeTags Let_def)

lemma createTrafficMirrorFilterInput_Tags:
  "TagSpecifications (createTrafficMirrorFilterInput d meta) =
     (if DefaultTagsConfig meta = Map.empty \<and> tags d = Map.empty then []
      else [\<lparr>ResourceType = ''traffic-mirror-filter'',
             TagSpecification.Tags = sentTags (DefaultTagsConfig meta) (tags d)\<rparr>])"
  by (simp add: createTrafficMirrorFilterInput_def ec2TagSpecificationsFromKeyValueTags_def
        IgnoreAws_MergeTags MergeTags_empty_iff ResourceTypeTrafficMirrorFilter_def Let_def)

text \<open>
  Claim C7, as amended. The first call of each of the three Create operations is the
  create call, and the tag set of its request is the merge of the client's default tags
  with the resource's own tags, on a key of both the resource's value, without the keys
  that carry the AWS-reserved prefix \<open>aws:\<close>, which are not sent. (For the EC2 traffic
  mirror filter the tags travel in one tag specification of the filter's resource type,
  and there is none when both tag sets are empty.)
\<close>

theorem C7_create_sends_merged_tags:
  "(\<exists>rest. snd (snd (resourceAwsAccessAnalyzerAnalyzerCreate d1 meta tr)) =
             tr @ CreateAnalyzer (createAnalyzerInput d1 meta tr) # rest)
   \<and> CreateAnalyzerInput.Tags (createAnalyzerInput d1 meta tr) =
       sentTags (DefaultTagsConfig meta) (tags d1)
   \<and> (\<exists>rest. snd (snd (resourceAwsRedshiftSnapshotScheduleCreate d2 meta tr)) =
             tr @ CreateSnapshotSchedule (createSnapshotScheduleInput d2 meta tr) # rest)
   \<and> CreateSnapshotScheduleInput.Tags (createSnapshotScheduleInput d2 meta tr) =
       sentTags (DefaultTagsConfig meta) (tags d2)
   \<and> (\<exists>rest. snd (snd (resourceAwsEc2TrafficMirrorFilterCreate d3 meta tr)) =
             tr @ CreateTrafficMirrorFilter (createTrafficMirrorFilterInput d3 meta) # rest)
   \<and> TagSpecifications (createTrafficMirrorFilterInput d3 meta) =
       (if DefaultTagsConfig meta = Map.empty \<and> tags d3 = Map.empty then []
        else [\<lparr>ResourceType = ''traffic-mirror-filter'',
               TagSpecification.Tags = sentTags (DefaultTagsConfig meta) (tags d3)\<rparr>])
   \<and> (\<forall>k v. sentTags defaultTags resourceTags k = Some v \<longleftrightarrow>
              \<not> prefix ''aws:'' k
              \<and> (resourceTags k = Some v \<or> resourceTags k = None \<and> defaultTags k = Some v))"
proof -
  have "sentTags defaultTags resourceTags k = Some v \<longleftrightarrow>
          \<not> prefix ''aws:'' k
          \<and> (resourceTags k = Some v \<or> resourceTags k = None \<and> defaultTags k = Some v)"
    for k v
    by (simp add: sentTags_def split: option.splits)
  then show ?thesis
    using accessanalyzer_create_first_call [of d1 meta tr]
      redshift_create_first_call [of d2 meta tr] ec2_create_first_call [of d3 meta tr]
    by (simp only: createAnalyzerInput_Tags createSnapshotScheduleInput_Tags
          createTrafficMirrorFilterInput_Tags simp_thms)
qed

text \<open>The spec's example: default tags \<open>{a:1}\<close> and resource tags \<open>{a:2, b:3}\<close> are sent as
  \<open>{a:2, b:3}\<close> by all three Create operations.\<close>

lemma sentTags_example:
  "sentTags [''a'' \<mapsto> ''1''] [''a'' \<mapsto> ''2'', ''b'' \<mapsto> ''3''] = [''a'' \<mapsto> ''2'', ''b'' \<mapsto> ''3'']"
  by (rule ext) (simp add: sentTags_def)

theorem C7_create_sends_merged_tags_witness:
  "CreateAnalyzerInput.Tags
     (createAnalyzerInput (newAnalyzerData\<lparr>tags := [''a'' \<mapsto> ''2'', ''b'' \<mapsto> ''3'']\<rparr>)
        (defaultTagsClient [''a'' \<mapsto> ''1'']) [])
     = [''a'' \<mapsto> ''2'', ''b'' \<mapsto> ''3'']
   \<and> CreateSnapshotScheduleInput.Tags
       (createSnapshotScheduleInput (scheduleData\<lparr>tags := [''a'' \<mapsto> ''2'', ''b'' \<mapsto> ''3'']\<rparr>)
          (defaultTagsClient [''a'' \<mapsto> ''1'']) [])
     = [''a'' \<mapsto> ''2'', ''b'' \<mapsto> ''3'']
   \<and> TagSpecifications
       (createTrafficMirrorFilterInput (filterData\<lparr>tags := [''a'' \<mapsto> ''2'', ''b'' \<mapsto> ''3'']\<rparr>)
          (defaultTagsClient [''a'' \<mapsto> ''1'']))
     = [\<lparr>ResourceType = ''traffic-mirror-filter'',
         TagSpecification.Tags = [''a'' \<mapsto> ''2'', ''b'' \<mapsto> ''3'']\<rparr>]"
proof -
  have d: "DefaultTagsConfig (defaultTagsClient [''a'' \<mapsto> ''1'']) = [''a'' \<mapsto> ''1'']"
    by (simp add: defaultTagsClient_def)
  have t1: "tags (newAnalyzerData\<lparr>tags := [''a'' \<mapsto> ''2'', ''b'' \<mapsto> ''3'']\<rparr>)
              = [''a'' \<mapsto> ''2'', ''b'' \<mapsto> ''3'']"
    and t2: "tags (scheduleData\<lparr>tags := [''a'' \<mapsto> ''2'', ''b'' \<mapsto> ''3'']\<rparr>)
              = [''a'' \<mapsto> ''2'', ''b'' \<mapsto> ''3'']"
    and t3: "tags (filterData\<lparr>tags := [''a'' \<mapsto> ''2'', ''b'' \<mapsto> ''3'']\<rparr>)
              = [''a'' \<mapsto> ''2'', ''b'' \<mapsto> ''3'']"
    by simp_all
  have ne: "[''a'' \<mapsto> ''1''] \<noteq> Map.empty" by simp
  show ?thesis
    using C7_create_sends_merged_tags
      [of "newAnalyzerData\<lparr>tags := [''a'' \<mapsto> ''2'', ''b'' \<mapsto> ''3'']\<rparr>"
          "defaultTagsClient [''a'' \<mapsto> ''1'']" "[]"
          "scheduleData\<lparr>tags := [''a'' \<mapsto> ''2'', ''b'' \<mapsto> ''3'']\<rparr>"
          "filterData\<lparr>tags := [''a'' \<mapsto> ''2'', ''b'' \<mapsto> ''3'']\<rparr>"]
    unfolding d t1 t2 t3 sentTags_example
    using ne by (simp only: simp_thms if_False)
qed

text \<open>The claim as stated, that the tag set sent is the merge, fails on a reserved key: the
  merge of the default tags \<open>{aws:createdBy: ops}\<close> with the resource tags \<open>{a:2}\<close> has the
  key \<open>aws:createdBy\<close>, and the request that Create sends has not.\<close>

theorem C7_reserved_key_is_not_sent:
  "MergeTags (DefaultTagsConfig (defaultTagsClient [''aws:createdBy'' \<mapsto> ''ops'']))
     (tags (newAnalyzerData\<lparr>tags := [''a'' \<mapsto> ''2'']\<rparr>)) ''aws:createdBy'' = Some ''ops''
   \<and> CreateAnalyzerInput.Tags
       (createAnalyzerInput (newAnalyzerData\<lparr>tags := [''a'' \<mapsto> ''2'']\<rparr>)
          (defaultTagsClient [''aws:createdBy'' \<mapsto> ''ops'']) []) ''aws:createdBy'' = None
   \<and> snd (snd (resourceAwsAccessAnalyzerAnalyzerCreate
                 (newAnalyzerData\<lparr>tags := [''a'' \<mapsto> ''2'']\<rparr>)
                 (defaultTagsClient [''aws:createdBy'' \<mapsto> ''ops'']) [])) =
       [CreateAnalyzer
          (createAnalyzerInput (newAnalyzerData\<lparr>tags := [''a'' \<mapsto> ''2'']\<rparr>)
             (defaultTagsClient [''aws:createdBy'' \<mapsto> ''ops'']) []),
        GetAnalyzer \<lparr>GetAnalyzerInput.AnalyzerName = ''example''\<rparr>]"
proof -
  let ?d = "newAnalyzerData\<lparr>tags := [''a'' \<mapsto> ''2'']\<rparr>"
  let ?meta = "defaultTagsClient [''aws:createdBy'' \<mapsto> ''ops'']"
  have merged: "MergeTags (DefaultTagsConfig ?meta) (tags ?d) ''aws:createdBy'' = Some ''ops''"
    by (simp add: MergeTags_def defaultTagsClient_def)
  have sent: "CreateAnalyzerInput.Tags (createAnalyzerInput ?d ?meta []) ''aws:createdBy'' = None"
    by (simp add: createAnalyzerInput_Tags sentTags_def)
  have k: "0 \<le> RetriesWithin ?meta accessAnalyzerOrganizationCreationTimeout" by simp
  have before: "\<forall>j<0. organizationNotReady
                  (onCreateAnalyzer (AccessAnalyzerConn ?meta)
                     ([] @ replicate j (CreateAnalyzer (createAnalyzerInput ?d ?meta [])))
                     (createAnalyzerInput ?d ?meta []))"
    by simp
  have ans: "onCreateAnalyzer (AccessAnalyzerConn ?meta)
               ([] @ replicate 0 (CreateAnalyzer (createAnalyzerInput ?d ?meta [])))
               (createAnalyzerInput ?d ?meta []) = None"
    by (simp add: defaultTagsClient_def quietClient_def)
  have nr: "\<not> organizationNotReady None"
    by (simp add: organizationNotReady_def ErrMessageContains_def)
  have "snd (snd (resourceAwsAccessAnalyzerAnalyzerCreate ?d ?meta [])) =
          [CreateAnalyzer (createAnalyzerInput ?d ?meta []),
           GetAnalyzer \<lparr>GetAnalyzerInput.AnalyzerName = Id (SetId (analyzer_name ?d) ?d)\<rparr>]"
    using accessanalyzer_create_stops [OF k before ans nr]
    by (simp add: accessanalyzer_read_calls)
  then show ?thesis
    using merged sent by (simp add: SetId_def newAnalyzerData_def)
qed

section \<open>Verification: force-destroy of the Redshift snapshot schedule\<close>

text \<open>One round of the first loop: after success or one of the two not-found codes the loop
  goes on with the next cluster, after any other error it ends with that error.\<close>

lemma disassociateClusters_step:
  "disassociationPasses (onModifyClusterSnapshotSchedule conn tr (disassociateInput sid c)) \<Longrightarrow>
   disassociateClusters conn sid (c # cs) tr =
     disassociateClusters conn sid cs
       (tr @ [ModifyClusterSnapshotSchedule (disassociateInput sid c)])"
  by (auto simp add: disassociationPasses_def conn_ModifyClusterSnapshotSchedule_def
        ErrMessageContains_empty disassociateInput_def split: option.splits)

lemma disassociateClusters_stop:
  "onModifyClusterSnapshotSchedule conn tr (disassociateInput sid c) = Some e \<Longrightarrow>
   \<not> disassociationPasses (Some e) \<Longrightarrow>
   disassociateClusters conn sid (c # cs) tr =
     (Some (ErrorString
              (''Error disassociate Redshift Cluster (''
               @ StringValue (ClusterAssociatedToSchedule.ClusterIdentifier c)
               @ '') and Snapshot Schedule ('' @ sid @ '') Association: '' @ Error e)),
      tr @ [ModifyClusterSnapshotSchedule (disassociateInput sid c)])"
  by (simp add: disassociationPasses_def conn_ModifyClusterSnapshotSchedule_def
        ErrMessageContains_empty disassociateInput_def)

text \<open>The first loop as a whole, by the answers to the successive disassociate calls.\<close>

lemma disassociateClusters_all:
  "(\<forall>i<length cs. disassociationPasses
       (onModifyClusterSnapshotSchedule conn (tr @ disassociateCalls sid (take i cs))
          (disassociateInput sid (cs ! i)))) \<Longrightarrow>
   disassociateClusters conn sid cs tr = (None, tr @ disassociateCalls sid cs)"
proof (induction cs arbitrary: tr)
  case Nil
  show ?case by (simp add: disassociateCalls_def)
next
  case (Cons c cs)
  from Cons.prems have first:
    "disassociationPasses (onModifyClusterSnapshotSchedule conn tr (disassociateInput sid c))"
    by (auto simp: disassociateCalls_def)
  have rest: "\<forall>i<length cs. disassociationPasses
       (onModifyClusterSnapshotSchedule conn
          ((tr @ [ModifyClusterSnapshotSchedule (disassociateInput sid c)])
           @ disassociateCalls sid (take i cs))
          (disassociateInput sid (cs ! i)))"
  proof (intro allI impI)
    fix i assume "i < length cs"
    then have "Suc i < length (c # cs)" by simp
    from Cons.prems [rule_format, OF this]
    show "disassociationPasses
       (onModifyClusterSnapshotSchedule conn
          ((tr @ [ModifyClusterSnapshotSchedule (disassociateInput sid c)])
           @ disassociateCalls sid (take i cs))
          (disassociateInput sid (cs ! i)))"
      by (simp add: disassociateCalls_def)
  qed
  show ?case
    unfolding disassociateClusters_step [OF first] Cons.IH [OF rest]
    by (simp add: disassociateCalls_def)
qed

lemma disassociateClusters_fails:
  "i < length cs \<Longrightarrow>
   (\<forall>j<i. disassociationPasses
       (onModifyClusterSnapshotSchedule conn (tr @ disassociateCalls sid (take j cs))
          (disassociateInput sid (cs ! j)))) \<Longrightarrow>
   onModifyClusterSnapshotSchedule conn (tr @ disassociateCalls sid (take i cs))
     (disassociateInput sid (cs ! i)) = Some e \<Longrightarrow>
   \<not> disassociationPasses (Some e) \<Longrightarrow>
   disassociateClusters conn sid cs tr =
     (Some (ErrorString
              (''Error disassociate Redshift Cluster (''
               @ StringValue (ClusterAssociatedToSchedule.ClusterIdentifier (cs ! i))
               @ '') and Snapshot Schedule ('' @ sid @ '') Association: '' @ Error e)),
      tr @ disassociateCalls sid (take (Suc i) cs))"
proof (induction cs arbitrary: tr i)
  case Nil
  then show ?case by simp
next
  case (Cons c cs)
  show ?case
  proof (cases i)
    case 0
    with Cons.prems show ?thesis
      using disassociateClusters_stop [of conn tr sid c e cs]
      by (simp add: disassociateCalls_def)
  next
    case (Suc i')
    with Cons.prems(2) have first:
      "disassociationPasses (onModifyClusterSnapshotSchedule conn tr (disassociateInput sid c))"
      by (auto simp: disassociateCalls_def)
    have len: "i' < length cs" using Cons.prems(1) Suc by simp
    have before: "\<forall>j<i'. disassociationPasses
       (onModifyClusterSnapshotSchedule conn
          ((tr @ [ModifyClusterSnapshotSchedule (disassociateInput sid c)])
           @ disassociateCalls sid (take j cs))
          (disassociateInput sid (cs ! j)))"
    proof (intro allI impI)
      fix j assume "j < i'"
      then have "Suc j < i" using Suc by simp
      from Cons.prems(2) [rule_format, OF this]
      show "disassociationPasses
         (onModifyClusterSnapshotSchedule conn
            ((tr @ [ModifyClusterSnapshotSchedule (disassociateInput sid c)])
             @ disassociateCalls sid (take j cs))
            (disassociateInput sid (cs ! j)))"
        by (simp add: disassociateCalls_def)
    qed
    have at: "onModifyClusterSnapshotSchedule conn
                ((tr @ [ModifyClusterSnapshotSchedule (disassociateInput sid c)])
                 @ disassociateCalls sid (take i' cs))
                (disassociateInput sid (cs ! i')) = Some e"
      using Cons.prems(3) Suc by (simp add: disassociateCalls_def)
    show ?thesis
      unfolding disassociateClusters_step [OF first]
        Cons.IH [OF len before at Cons.prems(4)]
      using Suc by (simp add: disassociateCalls_def)
  qed
qed

text \<open>The second loop, by the answers to the successive waits.\<close>

lemma waitForClusters_all:
  "(\<forall>i<length cs.
       onWaitForAssociationDestroy conn (tr @ waitCalls sid (take i cs)) (75 * Minute)
         (StringValue (ClusterAssociatedToSchedule.ClusterIdentifier (cs ! i))) sid = None) \<Longrightarrow>
   waitForClusters conn sid cs tr = (None, tr @ waitCalls sid cs)"
proof (induction cs arbitrary: tr)
  case Nil
  show ?case by (simp add: waitCalls_def)
next
  case (Cons c cs)
  from Cons.prems have first:
    "onWaitForAssociationDestroy conn tr (75 * Minute)
       (StringValue (ClusterAssociatedToSchedule.ClusterIdentifier c)) sid = None"
    by (auto simp: waitCalls_def)
  have rest: "\<forall>i<length cs.
       onWaitForAssociationDestroy conn
         ((tr @ [waitForRedshiftSnapshotScheduleAssociationDestroy (75 * Minute)
                   (StringValue (ClusterAssociatedToSchedule.ClusterIdentifier c)) sid])
          @ waitCalls sid (take i cs)) (75 * Minute)
         (StringValue (ClusterAssociatedToSchedule.ClusterIdentifier (cs ! i))) sid = None"
  proof (intro allI impI)
    fix i assume "i < length cs"
    then have "Suc i < length (c # cs)" by simp
    from Cons.prems [rule_format, OF this]
    show "onWaitForAssociationDestroy conn
         ((tr @ [waitForRedshiftSnapshotScheduleAssociationDestroy (75 * Minute)
                   (StringValue (ClusterAssociatedToSchedule.ClusterIdentifier c)) sid])
          @ waitCalls sid (take i cs)) (75 * Minute)
         (StringValue (ClusterAssociatedToSchedule.ClusterIdentifier (cs ! i))) sid = None"
      by (simp add: waitCalls_def)
  qed
  show ?case
    using Cons.IH [OF rest] first
    by (simp add: waitForAssociationDestroy_def waitCalls_def)
qed

lemma waitForClusters_fails:
  "i < length cs \<Longrightarrow>
   (\<forall>j<i.
       onWaitForAssociationDestroy conn (tr @ waitCalls sid (take j cs)) (75 * Minute)
         (StringValue (ClusterAssociatedToSchedule.ClusterIdentifier (cs ! j))) sid = None) \<Longrightarrow>
   onWaitForAssociationDestroy conn (tr @ waitCalls sid (take i cs)) (75 * Minute)
     (StringValue (ClusterAssociatedToSchedule.ClusterIdentifier (cs ! i))) sid = Some e \<Longrightarrow>
   waitForClusters conn sid cs tr = (Some e, tr @ waitCalls sid (take (Suc i) cs))"
proof (induction cs arbitrary: tr i)
  case Nil
  then show ?case by simp
next
  case (Cons c cs)
  show ?case
  proof (cases i)
    case 0
    with Cons.prems show ?thesis
      by (simp add: waitForAssociationDestroy_def waitCalls_def)
  next
    case (Suc i')
    with Cons.prems(2) have first:
      "onWaitForAssociationDestroy conn tr (75 * Minute)
         (StringValue (ClusterAssociatedToSchedule.ClusterIdentifier c)) sid = None"
      by (auto simp: waitCalls_def)
    have len: "i' < length cs" using Cons.prems(1) Suc by simp
    let ?tr = "tr @ [waitForRedshiftSnapshotScheduleAssociationDestroy (75 * Minute)
                       (StringValue (ClusterAssociatedToSchedule.ClusterIdentifier c)) sid]"
    have before: "\<forall>j<i'.
       onWaitForAssociationDestroy conn (?tr @ waitCalls sid (take j cs)) (75 * Minute)
         (StringValue (ClusterAssociatedToSchedule.ClusterIdentifier (cs ! j))) sid = None"
    proof (intro allI impI)
      fix j assume "j < i'"
      then have "Suc j < i" using Suc by simp
      from Cons.prems(2) [rule_format, OF this]
      show "onWaitForAssociationDestroy conn (?tr @ waitCalls sid (take j cs)) (75 * Minute)
         (StringValue (ClusterAssociatedToSchedule.ClusterIdentifier (cs ! j))) sid = None"
        by (simp add: waitCalls_def)
    qed
    have at: "onWaitForAssociationDestroy conn (?tr @ waitCalls sid (take i' cs)) (75 * Minute)
         (StringValue (ClusterAssociatedToSchedule.ClusterIdentifier (cs ! i'))) sid = Some e"
      using Cons.prems(3) Suc by (simp add: waitCalls_def)
    show ?thesis
      using Cons.IH [OF len before at] first Suc
      by (simp add: waitForAssociationDestroy_def waitCalls_def)
  qed
qed

text \<open>The helper when exactly one schedule is described, and Delete after the helper.\<close>

lemma deleteAllAssociatedClusters_described:
  assumes "onDescribeSnapshotSchedules conn tr
             \<lparr>DescribeSnapshotSchedulesInput.ScheduleIdentifier = sid\<rparr> = Inr resp"
    and "SnapshotSchedules resp = [schedule]"
  shows "resourceAwsRedshiftSnapshotScheduleDeleteAllAssociatedClusters conn sid tr =
           (case disassociateClusters conn sid (AssociatedClusters schedule)
                   (tr @ [DescribeSnapshotSchedules
                            \<lparr>DescribeSnapshotSchedulesInput.ScheduleIdentifier = sid\<rparr>]) of
              (Some e, tr2) \<Rightarrow> (Some e, tr2)
            | (None, tr2) \<Rightarrow> waitForClusters conn sid (AssociatedClusters schedule) tr2)"
  using assms
  by (simp add: resourceAwsRedshiftSnapshotScheduleDeleteAllAssociatedClusters_def
        conn_DescribeSnapshotSchedules_def errOf_def ErrMessageContains_def)

lemma redshift_delete_after_cleanup:
  assumes "force_destroy d"
    and "resourceAwsRedshiftSnapshotScheduleDeleteAllAssociatedClusters (RedshiftConn meta)
           (Id d) tr = (None, tr1)"
  shows "resourceAwsRedshiftSnapshotScheduleDelete d meta tr =
           (if ErrCodeEquals
                 (onDeleteSnapshotSchedule (RedshiftConn meta) tr1
                    \<lparr>DeleteSnapshotScheduleInput.ScheduleIdentifier = Id d\<rparr>)
                 ErrCodeSnapshotScheduleNotFoundFault
            then None
            else map_option
                   (\<lambda>e. ErrorString (''Error deleting Redshift Snapshot Schedule '' @ Id d
                                      @ '': '' @ Error e))
                   (onDeleteSnapshotSchedule (RedshiftConn meta) tr1
                      \<lparr>DeleteSnapshotScheduleInput.ScheduleIdentifier = Id d\<rparr>),
            d,
            tr1 @ [DeleteSnapshotSchedule
                     \<lparr>DeleteSnapshotScheduleInput.ScheduleIdentifier = Id d\<rparr>])"
  using assms
  by (simp add: resourceAwsRedshiftSnapshotScheduleDelete_def conn_DeleteSnapshotSchedule_def
        ErrMessageContains_empty split: option.splits)

lemma redshift_delete_cleanup_fails:
  assumes "force_destroy d"
    and "resourceAwsRedshiftSnapshotScheduleDeleteAllAssociatedClusters (RedshiftConn meta)
           (Id d) tr = (Some e, tr1)"
  shows "resourceAwsRedshiftSnapshotScheduleDelete d meta tr = (Some e, d, tr1)"
  using assms
  by (simp add: resourceAwsRedshiftSnapshotScheduleDelete_def)

text \<open>
  Claim C5, as amended. Delete runs with \<open>force_destroy\<close> set and the describe call of the
  helper returns exactly one schedule, with the associated clusters \<open>cs\<close>. Then:
  if every disassociate call is answered with success or with the cluster-not-found or
  schedule-not-found code, and every wait succeeds, Delete has issued, in this order, the
  describe call, one disassociate call for each cluster, one wait of 75 minutes for each
  cluster, and only then the call that deletes the schedule;
  if a disassociate call is answered with any other error, Delete returns that error,
  wrapped with the cluster and the schedule, after that call: no later disassociate call,
  no wait and no delete call is issued;
  if all disassociate calls pass and a wait fails, Delete returns the error of the wait
  after it, and no delete call is issued.
\<close>

theorem C5_force_destroy_detaches_then_deletes:
  assumes "force_destroy d"
    and "onDescribeSnapshotSchedules (RedshiftConn meta) tr
           \<lparr>DescribeSnapshotSchedulesInput.ScheduleIdentifier = Id d\<rparr> = Inr resp"
    and "SnapshotSchedules resp = [schedule]"
    and "cs = AssociatedClusters schedule"
    and "tr1 = tr @ [DescribeSnapshotSchedules
                       \<lparr>DescribeSnapshotSchedulesInput.ScheduleIdentifier = Id d\<rparr>]"
  shows "((\<forall>i<length cs. disassociationPasses
             (onModifyClusterSnapshotSchedule (RedshiftConn meta)
                (tr1 @ disassociateCalls (Id d) (take i cs)) (disassociateInput (Id d) (cs ! i))))
          \<and> (\<forall>i<length cs.
                onWaitForAssociationDestroy (RedshiftConn meta)
                  (tr1 @ disassociateCalls (Id d) cs @ waitCalls (Id d) (take i cs)) (75 * Minute)
                  (StringValue (ClusterAssociatedToSchedule.ClusterIdentifier (cs ! i))) (Id d)
                = None)
          \<longrightarrow> snd (snd (resourceAwsRedshiftSnapshotScheduleDelete d meta tr)) =
                tr1 @ disassociateCalls (Id d) cs @ waitCalls (Id d) cs
                @ [DeleteSnapshotSchedule
                     \<lparr>DeleteSnapshotScheduleInput.ScheduleIdentifier = Id d\<rparr>])
         \<and> (\<forall>i e. i < length cs
               \<and> (\<forall>j<i. disassociationPasses
                     (onModifyClusterSnapshotSchedule (RedshiftConn meta)
                        (tr1 @ disassociateCalls (Id d) (take j cs))
                        (disassociateInput (Id d) (cs ! j))))
               \<and> onModifyClusterSnapshotSchedule (RedshiftConn meta)
                    (tr1 @ disassociateCalls (Id d) (take i cs))
                    (disassociateInput (Id d) (cs ! i)) = Some e
               \<and> \<not> disassociationPasses (Some e)
               \<longrightarrow> resourceAwsRedshiftSnapshotScheduleDelete d meta tr =
                     (Some (ErrorString
                              (''Error disassociate Redshift Cluster (''
                               @ StringValue (ClusterAssociatedToSchedule.ClusterIdentifier (cs ! i))
                               @ '') and Snapshot Schedule ('' @ Id d @ '') Association: ''
                               @ Error e)),
                      d, tr1 @ disassociateCalls (Id d) (take (Suc i) cs)))
         \<and> (\<forall>i e. i < length cs
               \<and> (\<forall>j<length cs. disassociationPasses
                     (onModifyClusterSnapshotSchedule (RedshiftConn meta)
                        (tr1 @ disassociateCalls (Id d) (take j cs))
                        (disassociateInput (Id d) (cs ! j))))
               \<and> (\<forall>j<i.
                     onWaitForAssociationDestroy (RedshiftConn meta)
                       (tr1 @ disassociateCalls (Id d) cs @ waitCalls (Id d) (take j cs))
                       (75 * Minute)
                       (StringValue (ClusterAssociatedToSchedule.ClusterIdentifier (cs ! j)))
                       (Id d) = None)
               \<and> onWaitForAssociationDestroy (RedshiftConn meta)
                    (tr1 @ disassociateCalls (Id d) cs @ waitCalls (Id d) (take i cs))
                    (75 * Minute)
                    (StringValue (ClusterAssociatedToSchedule.ClusterIdentifier (cs ! i)))
                    (Id d) = Some e
               \<longrightarrow> resourceAwsRedshiftSnapshotScheduleDelete d meta tr =
                     (Some e, d,
                      tr1 @ disassociateCalls (Id d) cs @ waitCalls (Id d) (take (Suc i) cs)))"
proof (intro conjI allI impI)
  note helper = deleteAllAssociatedClusters_described [OF assms(2) assms(3)]
  {
    assume a: "(\<forall>i<length cs. disassociationPasses
             (onModifyClusterSnapshotSchedule (RedshiftConn meta)
                (tr1 @ disassociateCalls (Id d) (take i cs)) (disassociateInput (Id d) (cs ! i))))
          \<and> (\<forall>i<length cs.
                onWaitForAssociationDestroy (RedshiftConn meta)
                  (tr1 @ disassociateCalls (Id d) cs @ waitCalls (Id d) (take i cs)) (75 * Minute)
                  (StringValue (ClusterAssociatedToSchedule.ClusterIdentifier (cs ! i))) (Id d)
                = None)"
    have dis: "disassociateClusters (RedshiftConn meta) (Id d) cs tr1
                 = (None, tr1 @ disassociateCalls (Id d) cs)"
      using a by (intro disassociateClusters_all) simp
    have waits: "waitForClusters (RedshiftConn meta) (Id d) cs (tr1 @ disassociateCalls (Id d) cs)
                   = (None, (tr1 @ disassociateCalls (Id d) cs) @ waitCalls (Id d) cs)"
      using a by (intro waitForClusters_all) simp
    have "resourceAwsRedshiftSnapshotScheduleDeleteAllAssociatedClusters (RedshiftConn meta)
            (Id d) tr = (None, tr1 @ disassociateCalls (Id d) cs @ waitCalls (Id d) cs)"
      using helper dis waits assms(4,5) by simp
    from redshift_delete_after_cleanup [OF assms(1) this]
    show "snd (snd (resourceAwsRedshiftSnapshotScheduleDelete d meta tr)) =
                tr1 @ disassociateCalls (Id d) cs @ waitCalls (Id d) cs
                @ [DeleteSnapshotSchedule
                     \<lparr>DeleteSnapshotScheduleInput.ScheduleIdentifier = Id d\<rparr>]"
      by simp
  }
  {
    fix i e
    assume a: "i < length cs
               \<and> (\<forall>j<i. disassociationPasses
                     (onModifyClusterSnapshotSchedule (RedshiftConn meta)
                        (tr1 @ disassociateCalls (Id d) (take j cs))
                        (disassociateInput (Id d) (cs ! j))))
               \<and> onModifyClusterSnapshotSchedule (RedshiftConn meta)
                    (tr1 @ disassociateCalls (Id d) (take i cs))
                    (disassociateInput (Id d) (cs ! i)) = Some e
               \<and> \<not> disassociationPasses (Some e)"
    have dis: "disassociateClusters (RedshiftConn meta) (Id d) cs tr1 =
                 (Some (ErrorString
                          (''Error disassociate Redshift Cluster (''
                           @ StringValue (ClusterAssociatedToSchedule.ClusterIdentifier (cs ! i))
                           @ '') and Snapshot Schedule ('' @ Id d @ '') Association: ''
                           @ Error e)),
                  tr1 @ disassociateCalls (Id d) (take (Suc i) cs))"
      using a by (intro disassociateClusters_fails) simp_all
    have "resourceAwsRedshiftSnapshotScheduleDeleteAllAssociatedClusters (RedshiftConn meta)
            (Id d) tr =
            (Some (ErrorString
                          (''Error disassociate Redshift Cluster (''
                           @ StringValue (ClusterAssociatedToSchedule.ClusterIdentifier (cs ! i))
                           @ '') and Snapshot Schedule ('' @ Id d @ '') Association: ''
                           @ Error e)),
             tr1 @ disassociateCalls (Id d) (take (Suc i) cs))"
      using helper dis assms(4,5) by simp
    from redshift_delete_cleanup_fails [OF assms(1) this]
    show "resourceAwsRedshiftSnapshotScheduleDelete d meta tr =
                     (Some (ErrorString
                              (''Error disassociate Redshift Cluster (''
                               @ StringValue (ClusterAssociatedToSchedule.ClusterIdentifier (cs ! i))
                               @ '') and Snapshot Schedule ('' @ Id d @ '') Association: ''
                               @ Error e)),
                      d, tr1 @ disassociateCalls (Id d) (take (Suc i) cs))" .
  }
  {
    fix i e
    assume a: "i < length cs
               \<and> (\<forall>j<length cs. disassociationPasses
                     (onModifyClusterSnapshotSchedule (RedshiftConn meta)
                        (tr1 @ disassociateCalls (Id d) (take j cs))
                        (disassociateInput (Id d) (cs ! j))))
               \<and> (\<forall>j<i.
                     onWaitForAssociationDestroy (RedshiftConn meta)
                       (tr1 @ disassociateCalls (Id d) cs @ waitCalls (Id d) (take j cs))
                       (75 * Minute)
                       (StringValue (ClusterAssociatedToSchedule.ClusterIdentifier (cs ! j)))
                       (Id d) = None)
               \<and> onWaitForAssociationDestroy (RedshiftConn meta)
                    (tr1 @ disassociateCalls (Id d) cs @ waitCalls (Id d) (take i cs))
                    (75 * Minute)
                    (StringValue (ClusterAssociatedToSchedule.ClusterIdentifier (cs ! i)))
                    (Id d) = Some e"
    have dis: "disassociateClusters (RedshiftConn meta) (Id d) cs tr1
                 = (None, tr1 @ disassociateCalls (Id d) cs)"
      using a by (intro disassociateClusters_all) simp
    have waits: "waitForClusters (RedshiftConn meta) (Id d) cs (tr1 @ disassociateCalls (Id d) cs)
                   = (Some e, (tr1 @ disassociateCalls (Id d) cs)
                              @ waitCalls (Id d) (take (Suc i) cs))"
      using a by (intro waitForClusters_fails) simp_all
    have "resourceAwsRedshiftSnapshotScheduleDeleteAllAssociatedClusters (RedshiftConn meta)
            (Id d) tr =
            (Some e, tr1 @ disassociateCalls (Id d) cs @ waitCalls (Id d) (take (Suc i) cs))"
      using helper dis waits assms(4,5) by simp
    from redshift_delete_cleanup_fails [OF assms(1) this]
    show "resourceAwsRedshiftSnapshotScheduleDelete d meta tr =
                     (Some e, d,
                      tr1 @ disassociateCalls (Id d) cs @ waitCalls (Id d) (take (Suc i) cs))" .
  }
qed

text \<open>The two example errors: cluster-not-found lets the helper go on, an invalid cluster
  state does not.\<close>

lemma clusterNotFound_passes: "disassociationPasses (Some clusterNotFound)"
  by (simp add: disassociationPasses_def ErrCodeEquals_def clusterNotFound_def
        ErrCodeClusterNotFoundFault_def)

lemma invalidClusterState_stops: "\<not> disassociationPasses (Some invalidClusterState)"
  by (simp add: disassociationPasses_def ErrCodeEquals_def invalidClusterState_def
        ErrCodeClusterNotFoundFault_def ErrCodeSnapshotScheduleNotFoundFault_def)

text \<open>The claim as stated, that the failure of any single disassociation aborts the whole
  delete, fails: both disassociate calls fail with the cluster-not-found code, and Delete
  goes on to the waits, deletes the schedule and returns success.\<close>

theorem C5_failed_disassociation_does_not_abort:
  "onModifyClusterSnapshotSchedule
     (RedshiftConn (disassociatingClient [describedSchedule [''c1'', ''c2'']]
                      (Some clusterNotFound)))
     [DescribeSnapshotSchedules \<lparr>DescribeSnapshotSchedulesInput.ScheduleIdentifier = ''nightly''\<rparr>]
     \<lparr>ModifyClusterSnapshotScheduleInput.ClusterIdentifier = Some ''c1'',
      ModifyClusterSnapshotScheduleInput.ScheduleIdentifier = ''nightly'',
      DisassociateSchedule = True\<rparr>
     = Some (AwsErr ''ClusterNotFound'' ''Cluster not found'')
   \<and> resourceAwsRedshiftSnapshotScheduleDelete (scheduleData\<lparr>force_destroy := True\<rparr>)
       (disassociatingClient [describedSchedule [''c1'', ''c2'']] (Some clusterNotFound)) [] =
       (None, scheduleData\<lparr>force_destroy := True\<rparr>,
        [DescribeSnapshotSchedules
           \<lparr>DescribeSnapshotSchedulesInput.ScheduleIdentifier = ''nightly''\<rparr>,
         ModifyClusterSnapshotSchedule
           \<lparr>ModifyClusterSnapshotScheduleInput.ClusterIdentifier = Some ''c1'',
            ModifyClusterSnapshotScheduleInput.ScheduleIdentifier = ''nightly'',
            DisassociateSchedule = True\<rparr>,
         ModifyClusterSnapshotSchedule
           \<lparr>ModifyClusterSnapshotScheduleInput.ClusterIdentifier = Some ''c2'',
            ModifyClusterSnapshotScheduleInput.ScheduleIdentifier = ''nightly'',
            DisassociateSchedule = True\<rparr>,
         waitForRedshiftSnapshotScheduleAssociationDestroy (75 * Minute) ''c1'' ''nightly'',
         waitForRedshiftSnapshotScheduleAssociationDestroy (75 * Minute) ''c2'' ''nightly'',
         DeleteSnapshotSchedule \<lparr>DeleteSnapshotScheduleInput.ScheduleIdentifier = ''nightly''\<rparr>])"
proof -
  let ?meta = "disassociatingClient [describedSchedule [''c1'', ''c2'']] (Some clusterNotFound)"
  let ?d = "scheduleData\<lparr>force_destroy := True\<rparr>"
  let ?cs = "AssociatedClusters (describedSchedule [''c1'', ''c2''])"
  let ?tr1 = "[] @ [DescribeSnapshotSchedules
                     \<lparr>DescribeSnapshotSchedulesInput.ScheduleIdentifier = ''nightly''\<rparr>]"
  have id: "Id ?d = ''nightly''" and fd: "force_destroy ?d" by (simp_all add: scheduleData_def)
  have desc: "onDescribeSnapshotSchedules (RedshiftConn ?meta) []
                \<lparr>DescribeSnapshotSchedulesInput.ScheduleIdentifier = ''nightly''\<rparr>
              = Inr \<lparr>SnapshotSchedules = [describedSchedule [''c1'', ''c2'']]\<rparr>"
    by (simp add: disassociatingClient_def)
  have dis: "disassociateClusters (RedshiftConn ?meta) ''nightly'' ?cs ?tr1
               = (None, ?tr1 @ disassociateCalls ''nightly'' ?cs)"
    using clusterNotFound_passes
    by (intro disassociateClusters_all) (simp add: disassociatingClient_def)
  have waits: "waitForClusters (RedshiftConn ?meta) ''nightly'' ?cs
                 (?tr1 @ disassociateCalls ''nightly'' ?cs)
               = (None, (?tr1 @ disassociateCalls ''nightly'' ?cs) @ waitCalls ''nightly'' ?cs)"
    by (intro waitForClusters_all) (simp add: disassociatingClient_def quietClient_def)
  have helper: "resourceAwsRedshiftSnapshotScheduleDeleteAllAssociatedClusters
                  (RedshiftConn ?meta) (Id ?d) [] =
                  (None, ?tr1 @ disassociateCalls ''nightly'' ?cs @ waitCalls ''nightly'' ?cs)"
    unfolding id using deleteAllAssociatedClusters_described [OF desc] dis waits by simp
  have del: "onDeleteSnapshotSchedule (RedshiftConn ?meta) tr' input' = None" for tr' input'
    by (simp add: disassociatingClient_def quietClient_def)
  have "resourceAwsRedshiftSnapshotScheduleDelete ?d ?meta [] =
          (None, ?d, (?tr1 @ disassociateCalls ''nightly'' ?cs @ waitCalls ''nightly'' ?cs)
                     @ [DeleteSnapshotSchedule
                          \<lparr>DeleteSnapshotScheduleInput.ScheduleIdentifier = ''nightly''\<rparr>])"
    using redshift_delete_after_cleanup [OF fd helper] unfolding id del
    by (simp add: ErrCodeEquals_def)
  then show ?thesis
    by (simp add: disassociateCalls_def waitCalls_def describedSchedule_def disassociateInput_def
          StringValue_def disassociatingClient_def clusterNotFound_def)
qed


text \<open>Two associated clusters: with every call succeeding, Delete issues the six calls in
  the order of the claim; with the first disassociate call failing on an invalid cluster
  state, Delete returns that error after two calls.\<close>

theorem C5_force_destroy_detaches_then_deletes_witness:
  "snd (snd (resourceAwsRedshiftSnapshotScheduleDelete (scheduleData\<lparr>force_destroy := True\<rparr>)
               (describingClient [describedSchedule [''c1'', ''c2'']]) [])) =
     [DescribeSnapshotSchedules
        \<lparr>DescribeSnapshotSchedulesInput.ScheduleIdentifier = ''nightly''\<rparr>,
      ModifyClusterSnapshotSchedule
        \<lparr>ModifyClusterSnapshotScheduleInput.ClusterIdentifier = Some ''c1'',
         ModifyClusterSnapshotScheduleInput.ScheduleIdentifier = ''nightly'',
         DisassociateSchedule = True\<rparr>,
      ModifyClusterSnapshotSchedule
        \<lparr>ModifyClusterSnapshotScheduleInput.ClusterIdentifier = Some ''c2'',
         ModifyClusterSnapshotScheduleInput.ScheduleIdentifier = ''nightly'',
         DisassociateSchedule = True\<rparr>,
      waitForRedshiftSnapshotScheduleAssociationDestroy (75 * Minute) ''c1'' ''nightly'',
      waitForRedshiftSnapshotScheduleAssociationDestroy (75 * Minute) ''c2'' ''nightly'',
      DeleteSnapshotSchedule \<lparr>DeleteSnapshotScheduleInput.ScheduleIdentifier = ''nightly''\<rparr>]
   \<and> resourceAwsRedshiftSnapshotScheduleDelete (scheduleData\<lparr>force_destroy := True\<rparr>)
       (disassociatingClient [describedSchedule [''c1'', ''c2'']] (Some invalidClusterState)) [] =
       (Some (ErrorString
                (''Error disassociate Redshift Cluster (c1) and Snapshot Schedule (nightly) ''
                 @ ''Association: InvalidClusterState: The cluster is not available'')),
        scheduleData\<lparr>force_destroy := True\<rparr>,
        [DescribeSnapshotSchedules
           \<lparr>DescribeSnapshotSchedulesInput.ScheduleIdentifier = ''nightly''\<rparr>,
         ModifyClusterSnapshotSchedule
           \<lparr>ModifyClusterSnapshotScheduleInput.ClusterIdentifier = Some ''c1'',
            ModifyClusterSnapshotScheduleInput.ScheduleIdentifier = ''nightly'',
            DisassociateSchedule = True\<rparr>])"
proof
  let ?d = "scheduleData\<lparr>force_destroy := True\<rparr>"
  let ?schedule = "describedSchedule [''c1'', ''c2'']"
  let ?cs = "AssociatedClusters ?schedule"
  have id: "Id ?d = ''nightly''" and fd: "force_destroy ?d" by (simp_all add: scheduleData_def)
  let ?tr1 = "[] @ [DescribeSnapshotSchedules
                     \<lparr>DescribeSnapshotSchedulesInput.ScheduleIdentifier = Id ?d\<rparr>]"
  {
    let ?meta = "describingClient [?schedule]"
    have desc: "onDescribeSnapshotSchedules (RedshiftConn ?meta) []
                  \<lparr>DescribeSnapshotSchedulesInput.ScheduleIdentifier = Id ?d\<rparr>
                = Inr \<lparr>SnapshotSchedules = [?schedule]\<rparr>"
      by (simp add: describingClient_def)
    have one: "SnapshotSchedules \<lparr>SnapshotSchedules = [?schedule]\<rparr> = [?schedule]" by simp
    have pass: "\<forall>i<length ?cs. disassociationPasses
             (onModifyClusterSnapshotSchedule (RedshiftConn ?meta)
                (?tr1 @ disassociateCalls (Id ?d) (take i ?cs))
                (disassociateInput (Id ?d) (?cs ! i)))"
      by (simp add: describingClient_def quietClient_def disassociationPasses_def)
    have wait: "\<forall>i<length ?cs.
                onWaitForAssociationDestroy (RedshiftConn ?meta)
                  (?tr1 @ disassociateCalls (Id ?d) ?cs @ waitCalls (Id ?d) (take i ?cs))
                  (75 * Minute)
                  (StringValue (ClusterAssociatedToSchedule.ClusterIdentifier (?cs ! i))) (Id ?d)
                = None"
      by (simp add: describingClient_def quietClient_def)
    from C5_force_destroy_detaches_then_deletes
           [OF fd desc one refl refl, THEN conjunct1, rule_format, OF conjI, OF pass wait]
    show "snd (snd (resourceAwsRedshiftSnapshotScheduleDelete ?d ?meta [])) =
     [DescribeSnapshotSchedules
        \<lparr>DescribeSnapshotSchedulesInput.ScheduleIdentifier = ''nightly''\<rparr>,
      ModifyClusterSnapshotSchedule
        \<lparr>ModifyClusterSnapshotScheduleInput.ClusterIdentifier = Some ''c1'',
         ModifyClusterSnapshotScheduleInput.ScheduleIdentifier = ''nightly'',
         DisassociateSchedule = True\<rparr>,
      ModifyClusterSnapshotSchedule
        \<lparr>ModifyClusterSnapshotScheduleInput.ClusterIdentifier = Some ''c2'',
         ModifyClusterSnapshotScheduleInput.ScheduleIdentifier = ''nightly'',
         DisassociateSchedule = True\<rparr>,
      waitForRedshiftSnapshotScheduleAssociationDestroy (75 * Minute) ''c1'' ''nightly'',
      waitForRedshiftSnapshotScheduleAssociationDestroy (75 * Minute) ''c2'' ''nightly'',
      DeleteSnapshotSchedule \<lparr>DeleteSnapshotScheduleInput.ScheduleIdentifier = ''nightly''\<rparr>]"
      unfolding id
      by (simp add: disassociateCalls_def waitCalls_def describedSchedule_def
            disassociateInput_def StringValue_def)
  }
  {
    let ?meta = "disassociatingClient [?schedule] (Some invalidClusterState)"
    have desc: "onDescribeSnapshotSchedules (RedshiftConn ?meta) []
                  \<lparr>DescribeSnapshotSchedulesInput.ScheduleIdentifier = Id ?d\<rparr>
                = Inr \<lparr>SnapshotSchedules = [?schedule]\<rparr>"
      by (simp add: disassociatingClient_def)
    have one: "SnapshotSchedules \<lparr>SnapshotSchedules = [?schedule]\<rparr> = [?schedule]" by simp
    have hyp: "0 < length ?cs
               \<and> (\<forall>j<0. disassociationPasses
                     (onModifyClusterSnapshotSchedule (RedshiftConn ?meta)
                        (?tr1 @ disassociateCalls (Id ?d) (take j ?cs))
                        (disassociateInput (Id ?d) (?cs ! j))))
               \<and> onModifyClusterSnapshotSchedule (RedshiftConn ?meta)
                    (?tr1 @ disassociateCalls (Id ?d) (take 0 ?cs))
                    (disassociateInput (Id ?d) (?cs ! 0)) = Some invalidClusterState
               \<and> \<not> disassociationPasses (Some invalidClusterState)"
      using invalidClusterState_stops
      by (simp add: disassociatingClient_def describedSchedule_def)
    from C5_force_destroy_detaches_then_deletes
           [OF fd desc one refl refl, THEN conjunct2, THEN conjunct1, rule_format, OF hyp]
    show "resourceAwsRedshiftSnapshotScheduleDelete ?d ?meta [] =
       (Some (ErrorString
                (''Error disassociate Redshift Cluster (c1) and Snapshot Schedule (nightly) ''
                 @ ''Association: InvalidClusterState: The cluster is not available'')),
        ?d,
        [DescribeSnapshotSchedules
           \<lparr>DescribeSnapshotSchedulesInput.ScheduleIdentifier = ''nightly''\<rparr>,
         ModifyClusterSnapshotSchedule
           \<lparr>ModifyClusterSnapshotScheduleInput.ClusterIdentifier = Some ''c1'',
            ModifyClusterSnapshotScheduleInput.ScheduleIdentifier = ''nightly'',
            DisassociateSchedule = True\<rparr>])"
      unfolding id
      by (simp add: disassociateCalls_def describedSchedule_def disassociateInput_def
            StringValue_def invalidClusterState_def)
  }
qed

section \<open>Verification: the errors that the operations return\<close>




























end
